theory Spec2Isabelle
  imports Main "HOL-Library.Word"
begin

unbundle bit_operations_syntax

section \<open>The text viewer of \<open>main.go\<close>\<close>

text \<open>
  The program is one Go file: \<open>main\<close> loads the file, builds an \<open>appState\<close> and runs
  the event loop; \<open>moveCursor\<close> and \<open>drawUI\<close> (with \<open>drawBorder\<close> and \<open>drawString\<close>)
  are its helpers. Go's \<open>int\<close> is modelled as \<open>int\<close>: every value is a line count, a
  byte count or a screen coordinate, plus or minus a screen height, far from the 64-bit
  range. A Go string is its list of bytes, so \<open>len\<close> is \<open>length\<close>. The two run-time
  panics the code can raise (an index out of range, slice bounds out of range) are values
  of the type \<open>error\<close>. The four functions at the end of the file (\<open>moveVertical\<close>,
  \<open>moveHorizontal\<close>, \<open>pageDown\<close>, \<open>pageUp\<close>, lines 280 to 315) are called from nowhere
  and are left out.
\<close>

subsection \<open>State and run-time panics\<close>

record appState =
  lines :: "string list"
  filename :: string
  startLine :: int
  startCol :: int
  currentLine :: int
  currentCol :: int
  screenWidth :: int
  screenHeight :: int
  lastGPress :: bool

datatype error = IndexOutOfRange | SliceBoundsOutOfRange

text \<open>\<open>xs[i]\<close> on a slice of strings: Go panics unless \<open>0 \<le> i < len(xs)\<close>.\<close>

definition index_line :: "string list \<Rightarrow> int \<Rightarrow> error + string" where
  "index_line xs i =
     (if 0 \<le> i \<and> i < int (length xs) then Inr (xs ! nat i) else Inl IndexOutOfRange)"

text \<open>\<open>s[a:b]\<close> on a string: Go panics unless \<open>0 \<le> a \<le> b \<le> len(s)\<close>.\<close>

definition slice_str :: "string \<Rightarrow> int \<Rightarrow> int \<Rightarrow> error + string" where
  "slice_str s a b =
     (if 0 \<le> a \<and> a \<le> b \<and> b \<le> int (length s)
      then Inr (take (nat b - nat a) (drop (nat a) s))
      else Inl SliceBoundsOutOfRange)"

text \<open>Go's \<open>/\<close> on \<open>int\<close> truncates towards zero; HOL's \<open>div\<close> rounds down.\<close>

definition go_div :: "int \<Rightarrow> int \<Rightarrow> int" where
  "go_div a b =
     (if (a < 0) = (b < 0) then \<bar>a\<bar> div \<bar>b\<bar> else - (\<bar>a\<bar> div \<bar>b\<bar>))"

subsection \<open>Loading: \<open>strings.Split(string(content), "\n")\<close> (line 34)\<close>

text \<open>
  \<open>strings.Split\<close> is the Go standard library's: it cuts the string at every occurrence
  of the separator and returns the pieces between them, so a string with \<open>n\<close> separators
  gives \<open>n + 1\<close> pieces. \<open>split_nl\<close> is that function for the one-byte separator
  \<open>"\n"\<close>: the first piece runs up to the first newline, the rest is split the same way.
\<close>

definition nl :: char where
  "nl = CHR 0x0A"

fun split_nl :: "string \<Rightarrow> string list" where
  "split_nl [] = [[]]"
| "split_nl (c # cs) =
     (if c = nl then [] # split_nl cs
      else (case split_nl cs of
              [] \<Rightarrow> [[c]]
            | l # ls \<Rightarrow> (c # l) # ls))"

text \<open>The state literal of lines 35 to 42; the fields it leaves out are Go's zero values.\<close>

definition initState :: "string \<Rightarrow> string \<Rightarrow> appState" where
  "initState content fname =
     \<lparr> lines = split_nl content, filename = fname,
       startLine = 0, startCol = 0, currentLine = 0, currentCol = 0,
       screenWidth = 0, screenHeight = 0, lastGPress = False \<rparr>"

subsection \<open>The head of the loop body (lines 55 to 72)\<close>

text \<open>
  The spec calls this step \<open>Resync\<close>: store the screen size, move \<open>startLine\<close> so that
  the cursor's line is shown, cap \<open>currentCol\<close> at the length of the cursor's line.
  \<open>state.lines[state.currentLine]\<close> on line 69 panics when the index is out of range.
\<close>

definition resync :: "int \<Rightarrow> int \<Rightarrow> appState \<Rightarrow> error + appState" where
  "resync w h s =
     (let s1 = s\<lparr>screenWidth := w, screenHeight := h\<rparr>;
          contentHeight = h - 3;
          s2 = (if currentLine s1 < startLine s1
                then s1\<lparr>startLine := currentLine s1\<rparr> else s1);
          s3 = (if currentLine s2 \<ge> startLine s2 + contentHeight
                then s2\<lparr>startLine := currentLine s2 - contentHeight + 1\<rparr> else s2)
      in case index_line (lines s3) (currentLine s3) of
           Inl e \<Rightarrow> Inl e
         | Inr l \<Rightarrow>
             (let currentLineLength = int (length l)
              in Inr (if currentCol s3 > currentLineLength
                      then s3\<lparr>currentCol := currentLineLength\<rparr> else s3)))"

subsection \<open>\<open>moveCursor\<close> (lines 184 to 201)\<close>

definition moveCursor :: "appState \<Rightarrow> int \<Rightarrow> int \<Rightarrow> error + appState" where
  "moveCursor s dy dx =
     (let s1 = (if dy \<noteq> 0
                then (let newLine = currentLine s + dy
                      in if newLine \<ge> 0 \<and> newLine < int (length (lines s))
                         then s\<lparr>currentLine := newLine\<rparr> else s)
                else s)
      in if dx \<noteq> 0
         then (case index_line (lines s1) (currentLine s1) of
                 Inl e \<Rightarrow> Inl e
               | Inr l \<Rightarrow>
                   (let currentLineLength = int (length l);
                        newCol = currentCol s1 + dx
                    in Inr (if newCol \<ge> 0 \<and> newCol \<le> currentLineLength
                            then s1\<lparr>currentCol := newCol\<rparr> else s1)))
         else Inr s1)"

subsection \<open>The event handlers inside \<open>main\<close> (lines 76 to 180)\<close>

text \<open>
  Each handler is the body of one \<open>case\<close> of the switch. \<open>contentHeight\<close> and \<open>h\<close> are
  the loop body's local variables, passed as arguments.
\<close>

text \<open>Wheel up, lines 86 to 89 (the spec's \<open>ScrollLines(-3)\<close>).\<close>

definition wheelUp :: "appState \<Rightarrow> appState" where
  "wheelUp s =
     (let s1 = s\<lparr>startLine := startLine s - 3\<rparr>
      in if startLine s1 < 0 then s1\<lparr>startLine := 0\<rparr> else s1)"

text \<open>Wheel down, lines 91 to 98 (the spec's \<open>ScrollLines(3)\<close>).\<close>

definition maxStartOf :: "appState \<Rightarrow> int \<Rightarrow> int" where
  "maxStartOf s contentHeight =
     (let maxStart = int (length (lines s)) - contentHeight
      in if maxStart < 0 then 0 else maxStart)"

definition wheelDown :: "int \<Rightarrow> appState \<Rightarrow> appState" where
  "wheelDown contentHeight s =
     (let maxStart = maxStartOf s contentHeight;
          s1 = s\<lparr>startLine := startLine s + 3\<rparr>
      in if startLine s1 > maxStart then s1\<lparr>startLine := maxStart\<rparr> else s1)"

text \<open>
  Left click, lines 101 to 114 (the spec's \<open>ClickAt\<close>). Line 104 stores the line before
  line 107 reads \<open>state.lines[clickLine]\<close>, which panics when \<open>clickLine\<close> is negative.
\<close>

definition clickAt :: "int \<Rightarrow> int \<Rightarrow> int \<Rightarrow> appState \<Rightarrow> error + appState" where
  "clickAt h x y s =
     (if y \<ge> 1 \<and> y < h - 2
      then (let clickLine = startLine s + (y - 1)
            in if clickLine < int (length (lines s))
               then (let s1 = s\<lparr>currentLine := clickLine\<rparr>;
                         clickCol = startCol s1 + (x - 1)
                     in case index_line (lines s1) clickLine of
                          Inl e \<Rightarrow> Inl e
                        | Inr l \<Rightarrow>
                            (let clickCol' = (if clickCol > int (length l)
                                              then int (length l) else clickCol)
                             in Inr (if clickCol' \<ge> 0
                                     then s1\<lparr>currentCol := clickCol'\<rparr> else s1)))
               else Inr s)
      else Inr s)"

text \<open>Ctrl-B and Ctrl-F, lines 128 to 141 (the spec's \<open>PageScroll(-1)\<close>, \<open>PageScroll(+1)\<close>).\<close>

definition keyCtrlB :: "int \<Rightarrow> appState \<Rightarrow> appState" where
  "keyCtrlB contentHeight s =
     (let s1 = s\<lparr>startLine := startLine s - contentHeight\<rparr>
      in if startLine s1 < 0 then s1\<lparr>startLine := 0\<rparr> else s1)"

definition keyCtrlF :: "int \<Rightarrow> appState \<Rightarrow> appState" where
  "keyCtrlF contentHeight s =
     (let s1 = s\<lparr>startLine := startLine s + contentHeight\<rparr>;
          maxStart = maxStartOf s1 contentHeight
      in if startLine s1 > maxStart then s1\<lparr>startLine := maxStart\<rparr> else s1)"

text \<open>Ctrl-D and Ctrl-U, lines 142 to 155 (half a page).\<close>

definition keyCtrlD :: "int \<Rightarrow> appState \<Rightarrow> appState" where
  "keyCtrlD contentHeight s =
     (let s1 = s\<lparr>startLine := startLine s + go_div contentHeight 2\<rparr>;
          maxStart = maxStartOf s1 contentHeight
      in if startLine s1 > maxStart then s1\<lparr>startLine := maxStart\<rparr> else s1)"

definition keyCtrlU :: "int \<Rightarrow> appState \<Rightarrow> appState" where
  "keyCtrlU contentHeight s =
     (let s1 = s\<lparr>startLine := startLine s - go_div contentHeight 2\<rparr>
      in if startLine s1 < 0 then s1\<lparr>startLine := 0\<rparr> else s1)"

text \<open>The rune \<open>g\<close>, lines 168 to 174 (the spec's \<open>ToggleChordOrJumpTop\<close>).\<close>

definition runeLowerG :: "appState \<Rightarrow> appState" where
  "runeLowerG s =
     (if lastGPress s
      then s\<lparr>currentLine := 0, lastGPress := False\<rparr>
      else s\<lparr>lastGPress := True\<rparr>)"

text \<open>The rune \<open>G\<close>, lines 175 to 177 (the spec's \<open>JumpToBottom\<close>).\<close>

definition runeUpperG :: "appState \<Rightarrow> appState" where
  "runeUpperG s = s\<lparr>currentLine := int (length (lines s)) - 1, lastGPress := False\<rparr>"

subsection \<open>Events and the switch that dispatches them\<close>

text \<open>
  The events come from the terminal library \<open>tcell\<close>. A mouse event carries a position
  and a 16-bit button mask, whose bits the library numbers from \<open>Button1 = 1\<close> through
  eight buttons to \<open>WheelUp = 256\<close> and \<open>WheelDown = 512\<close>. A key event carries a key
  and a rune; \<open>KeyOther\<close> stands for every key the switch has no case for, and
  \<open>EventOther\<close> for every other kind of event.
\<close>

datatype key =
  KeyEscape | KeyCtrlC | KeyDown | KeyUp | KeyRight | KeyLeft
| KeyCtrlB | KeyCtrlF | KeyCtrlD | KeyCtrlU | KeyRune | KeyOther

datatype event =
  EventResize
| EventMouse int int "16 word"
| EventKey key int
| EventOther

definition Button1 :: "16 word" where
  "Button1 = 1"

definition WheelUp :: "16 word" where
  "WheelUp = 256"

definition WheelDown :: "16 word" where
  "WheelDown = 512"

abbreviation rune :: "char \<Rightarrow> int" where
  "rune c \<equiv> of_char c"

text \<open>
  The inner switch on \<open>ev.Rune()\<close> (lines 157 to 178). The result pairs the new state
  with the flag "\<open>break mainLoop\<close>".
\<close>

definition onRune :: "int \<Rightarrow> appState \<Rightarrow> error + (bool \<times> appState)" where
  "onRune r s =
     (if r = rune CHR ''j'' then map_sum id (Pair False) (moveCursor s 1 0)
      else if r = rune CHR ''k'' then map_sum id (Pair False) (moveCursor s (-1) 0)
      else if r = rune CHR ''h'' then map_sum id (Pair False) (moveCursor s 0 (-1))
      else if r = rune CHR ''l'' then map_sum id (Pair False) (moveCursor s 0 1)
      else if r = rune CHR ''q'' then Inr (True, s)
      else if r = rune CHR ''g'' then Inr (False, runeLowerG s)
      else if r = rune CHR ''G'' then Inr (False, runeUpperG s)
      else Inr (False, s))"

text \<open>The switch on \<open>ev.Key()\<close> (lines 117 to 179).\<close>

fun onKey :: "int \<Rightarrow> key \<Rightarrow> int \<Rightarrow> appState \<Rightarrow> error + (bool \<times> appState)" where
  "onKey contentHeight KeyEscape r s = Inr (True, s)"
| "onKey contentHeight KeyCtrlC r s = Inr (True, s)"
| "onKey contentHeight KeyDown r s = map_sum id (Pair False) (moveCursor s 1 0)"
| "onKey contentHeight KeyUp r s = map_sum id (Pair False) (moveCursor s (-1) 0)"
| "onKey contentHeight KeyRight r s = map_sum id (Pair False) (moveCursor s 0 1)"
| "onKey contentHeight KeyLeft r s = map_sum id (Pair False) (moveCursor s 0 (-1))"
| "onKey contentHeight KeyCtrlB r s = Inr (False, keyCtrlB contentHeight s)"
| "onKey contentHeight KeyCtrlF r s = Inr (False, keyCtrlF contentHeight s)"
| "onKey contentHeight KeyCtrlD r s = Inr (False, keyCtrlD contentHeight s)"
| "onKey contentHeight KeyCtrlU r s = Inr (False, keyCtrlU contentHeight s)"
| "onKey contentHeight KeyRune r s = onRune r s"
| "onKey contentHeight KeyOther r s = Inr (False, s)"

text \<open>The switch on the mouse buttons (lines 84 to 115): the first case that matches.\<close>

definition onMouse :: "int \<Rightarrow> int \<Rightarrow> int \<Rightarrow> 16 word \<Rightarrow> appState \<Rightarrow> error + appState" where
  "onMouse h x y buttons s =
     (if buttons AND WheelUp \<noteq> 0 then Inr (wheelUp s)
      else if buttons AND WheelDown \<noteq> 0 then Inr (wheelDown (h - 3) s)
      else if buttons AND Button1 \<noteq> 0 then clickAt h x y s
      else Inr s)"

text \<open>The switch on the type of the event (lines 76 to 180); a resize changes no field.\<close>

fun dispatch :: "int \<Rightarrow> event \<Rightarrow> appState \<Rightarrow> error + (bool \<times> appState)" where
  "dispatch h EventResize s = Inr (False, s)"
| "dispatch h (EventMouse x y buttons) s = map_sum id (Pair False) (onMouse h x y buttons s)"
| "dispatch h (EventKey k r) s = onKey (h - 3) k r s"
| "dispatch h EventOther s = Inr (False, s)"

subsection \<open>The renderer: \<open>drawUI\<close>, \<open>drawBorder\<close>, \<open>drawString\<close> (lines 203 to 278)\<close>

text \<open>
  The renderer only calls methods of the screen. Its model returns the calls in order;
  a rune is its code point. The screen's own behaviour (it ignores a cell outside the
  grid) belongs to the library.
\<close>

datatype drawOp =
  Clear
| SetContent int int nat
| ShowCursor int int
| HideCursor
| Show

text \<open>
  \<open>for i, c := range str\<close> walks the string by UTF-8 sequences: \<open>i\<close> is the byte offset
  at which a sequence starts and \<open>c\<close> its code point; a byte that starts no well-formed
  sequence gives the rune \<open>U+FFFD\<close> and is skipped alone. \<open>decodeRune\<close> returns the rune
  and the number of bytes it takes.
\<close>

definition isCont :: "nat \<Rightarrow> nat \<Rightarrow> nat \<Rightarrow> bool" where
  "isCont lo hi b = (lo \<le> b \<and> b \<le> hi)"

fun decodeRune :: "nat list \<Rightarrow> nat \<times> nat" where
  "decodeRune [] = (65533, 1)"
| "decodeRune (b0 # bs) =
     (if b0 < 128 then (b0, 1)
      else if 194 \<le> b0 \<and> b0 \<le> 223 then
        (case bs of
           b1 # _ \<Rightarrow>
             if isCont 128 191 b1 then ((b0 mod 32) * 64 + b1 mod 64, 2) else (65533, 1)
         | _ \<Rightarrow> (65533, 1))
      else if 224 \<le> b0 \<and> b0 \<le> 239 then
        (case bs of
           b1 # b2 # _ \<Rightarrow>
             if isCont (if b0 = 224 then 160 else 128) (if b0 = 237 then 159 else 191) b1
                \<and> isCont 128 191 b2
             then ((b0 mod 16) * 4096 + (b1 mod 64) * 64 + b2 mod 64, 3) else (65533, 1)
         | _ \<Rightarrow> (65533, 1))
      else if 240 \<le> b0 \<and> b0 \<le> 244 then
        (case bs of
           b1 # b2 # b3 # _ \<Rightarrow>
             if isCont (if b0 = 240 then 144 else 128) (if b0 = 244 then 143 else 191) b1
                \<and> isCont 128 191 b2 \<and> isCont 128 191 b3
             then ((b0 mod 8) * 262144 + (b1 mod 64) * 4096 + (b2 mod 64) * 64 + b3 mod 64, 4)
             else (65533, 1)
         | _ \<Rightarrow> (65533, 1))
      else (65533, 1))"

function rangeStr :: "int \<Rightarrow> nat list \<Rightarrow> (int \<times> nat) list" where
  "rangeStr i [] = []"
| "rangeStr i (b # bs) =
     (let (c, n) = decodeRune (b # bs)
      in (i, c) # rangeStr (i + int n) (drop (n - 1) bs))"
  by pat_completeness auto
termination
  by (relation "measure (\<lambda>(i, bs). length bs)") auto

definition drawString :: "int \<Rightarrow> int \<Rightarrow> string \<Rightarrow> drawOp list" where
  "drawString x y str =
     map (\<lambda>(i, c). SetContent (x + i) y c) (rangeStr 0 (map of_char str))"

text \<open>The border runes are the box-drawing characters \<open>U+250C\<close>, \<open>U+2510\<close>, \<open>U+2514\<close>,
  \<open>U+2518\<close>, \<open>U+2500\<close> and \<open>U+2502\<close>.\<close>

definition drawBorder :: "int \<Rightarrow> int \<Rightarrow> drawOp list" where
  "drawBorder w h =
     [SetContent 0 0 9484, SetContent (w - 1) 0 9488,
      SetContent 0 (h - 1) 9492, SetContent (w - 1) (h - 1) 9496]
     @ concat (map (\<lambda>x. [SetContent x 0 9472, SetContent x (h - 2) 9472,
                          SetContent x (h - 1) 32]) [1..w - 2])
     @ concat (map (\<lambda>y. [SetContent 0 y 9474, SetContent (w - 1) y 9474]) [1..h - 3])"

text \<open>
  The content loop of lines 212 to 226, over the values of \<open>i\<close> still to come. The
  \<open>break\<close> ends it; \<open>state.lines[lineNum]\<close> and \<open>line[start:end]\<close> can panic.
\<close>

fun drawContent :: "appState \<Rightarrow> int \<Rightarrow> int list \<Rightarrow> error + drawOp list" where
  "drawContent s w [] = Inr []"
| "drawContent s w (i # rest) =
     (let lineNum = startLine s + i
      in if lineNum \<ge> int (length (lines s)) then Inr []
         else (case index_line (lines s) lineNum of
                 Inl e \<Rightarrow> Inl e
               | Inr line \<Rightarrow>
                   (let start = startCol s;
                        end0 = start + (w - 2);
                        end1 = (if end0 > int (length line) then int (length line) else end0)
                    in if start < int (length line)
                       then (case slice_str line start end1 of
                               Inl e \<Rightarrow> Inl e
                             | Inr sub \<Rightarrow>
                                 map_sum id (\<lambda>ops. drawString 1 (1 + i) sub @ ops)
                                   (drawContent s w rest))
                       else drawContent s w rest)))"

text \<open>\<open>%d\<close> of \<open>fmt.Sprintf\<close>: the decimal digits, with a minus sign when negative.\<close>

fun natDigits :: "nat \<Rightarrow> string" where
  "natDigits n =
     (if n < 10 then [char_of (48 + n)]
      else natDigits (n div 10) @ [char_of (48 + n mod 10)])"

declare natDigits.simps [simp del]

definition itoa :: "int \<Rightarrow> string" where
  "itoa i = (if i < 0 then CHR ''-'' # natDigits (nat (- i)) else natDigits (nat i))"

text \<open>The status line of lines 229 to 237, cut to \<open>w - 2\<close> bytes by \<open>status[:w-2]\<close>.\<close>

definition statusLine :: "appState \<Rightarrow> int \<Rightarrow> error + string" where
  "statusLine s w =
     (let status = '' '' @ filename s @ '' | Line: '' @ itoa (currentLine s + 1) @ ''/''
                   @ itoa (int (length (lines s))) @ '' | Col: '' @ itoa (currentCol s + 1)
                   @ '' ''
      in if int (length status) > w - 2 then slice_str status 0 (w - 2) else Inr status)"

text \<open>The cursor of lines 241 to 247.\<close>

definition cursorOp :: "appState \<Rightarrow> drawOp" where
  "cursorOp s =
     (let w = screenWidth s; contentHeight = screenHeight s - 3;
          relY = currentLine s - startLine s;
          relX = currentCol s - startCol s
      in if relY \<ge> 0 \<and> relY < contentHeight \<and> relX \<ge> 0 \<and> relX < w - 2
         then ShowCursor (relX + 1) (relY + 1) else HideCursor)"

definition drawUI :: "appState \<Rightarrow> error + drawOp list" where
  "drawUI s =
     (let w = screenWidth s; h = screenHeight s; contentHeight = h - 3
      in case drawContent s w [0..contentHeight - 1] of
           Inl e \<Rightarrow> Inl e
         | Inr rows \<Rightarrow>
             (case statusLine s w of
                Inl e \<Rightarrow> Inl e
              | Inr status \<Rightarrow>
                  Inr (Clear # drawBorder w h @ rows @ drawString 1 (h - 2) status
                       @ [cursorOp s, Show])))"

subsection \<open>The loop (lines 53 to 181)\<close>

text \<open>
  One input of the loop is what one pass reads from the screen: the size \<open>screen.Size()\<close>
  returns and the event \<open>screen.PollEvent()\<close> returns. \<open>mainLoop\<close> runs the passes for a
  list of inputs. It returns the states the program went through, one after the head of
  each pass and one after each dispatched event, and how the run ended: \<open>Polling\<close> when
  the inputs are used up, \<open>Exited\<close> after \<open>break mainLoop\<close>, \<open>Panicked\<close> when a pass
  panicked.
\<close>

datatype outcome = Polling | Exited | Panicked error

fun mainLoop :: "(int \<times> int \<times> event) list \<Rightarrow> appState \<Rightarrow> appState list \<times> outcome" where
  "mainLoop [] s = ([], Polling)"
| "mainLoop ((w, h, ev) # rest) s =
     (case resync w h s of
        Inl e \<Rightarrow> ([], Panicked e)
      | Inr s1 \<Rightarrow>
          (case drawUI s1 of
             Inl e \<Rightarrow> ([s1], Panicked e)
           | Inr screen \<Rightarrow>
               (case dispatch h ev s1 of
                  Inl e \<Rightarrow> ([s1], Panicked e)
                | Inr (brk, s2) \<Rightarrow>
                    if brk then ([s1, s2], Exited)
                    else (let (tr, out) = mainLoop rest s2 in (s1 # s2 # tr, out)))))"

section \<open>Notions of the specification\<close>

text \<open>
  The properties below are stated with these. \<open>clamp\<close> is the specification's clamp and
  \<open>lineLen\<close> the length of a line of the document. \<open>cursorOK\<close> and \<open>columnOK\<close> are its
  invariants 1 and 2 on the cursor; \<open>viewBounded\<close> is its invariant 3 on the first line
  shown, with \<open>maxStartOf\<close> taken at the stored screen height; \<open>startNonneg\<close> is the
  lower half of it, and \<open>startColZero\<close> says that the view starts at column 0.
\<close>

definition clamp :: "int \<Rightarrow> int \<Rightarrow> int \<Rightarrow> int" where
  "clamp v lo hi = max lo (min v hi)"

definition lineLen :: "appState \<Rightarrow> int \<Rightarrow> int" where
  "lineLen s i = int (length (lines s ! nat i))"

definition cursorOK :: "appState \<Rightarrow> bool" where
  "cursorOK s = (0 \<le> currentLine s \<and> currentLine s < int (length (lines s)))"

definition columnOK :: "appState \<Rightarrow> bool" where
  "columnOK s = (0 \<le> currentCol s \<and> currentCol s \<le> lineLen s (currentLine s))"

definition startNonneg :: "appState \<Rightarrow> bool" where
  "startNonneg s = (0 \<le> startLine s)"

definition viewBounded :: "appState \<Rightarrow> bool" where
  "viewBounded s =
     (0 \<le> startLine s \<and> startLine s \<le> maxStartOf s (screenHeight s - 3))"

definition startColZero :: "appState \<Rightarrow> bool" where
  "startColZero s = (startCol s = 0)"

text \<open>
  A list of inputs is \<open>shrinking\<close> from the height \<open>hp\<close> when every pass sees a screen of
  at least three rows that is no higher than the screen of the pass before it.
\<close>

fun shrinking :: "int \<Rightarrow> (int \<times> int \<times> event) list \<Rightarrow> bool" where
  "shrinking hp [] = True"
| "shrinking hp ((w, h, ev) # rest) = (3 \<le> h \<and> h \<le> hp \<and> shrinking h rest)"

text \<open>The inverse of the split: the pieces with a newline between each two of them.\<close>

fun join_nl :: "string list \<Rightarrow> string" where
  "join_nl [] = []"
| "join_nl [l] = l"
| "join_nl (l # m # ls) = l @ nl # join_nl (m # ls)"

text \<open>
  Two states to try the properties on: a document of a hundred lines \<open>abc\<close> on a screen
  of ten rows, with the cursor on line 50 and past the end of the line, and a document
  of three lines with the cursor at the end of the first.
\<close>

definition hundred :: appState where
  "hundred = \<lparr> lines = replicate 100 ''abc'', filename = ''f'',
       startLine = 0, startCol = 0, currentLine = 50, currentCol = 7,
       screenWidth = 80, screenHeight = 10, lastGPress = False \<rparr>"

definition three :: appState where
  "three = \<lparr> lines = [''abcdef'', ''a'', ''b''], filename = ''f'',
       startLine = 0, startCol = 0, currentLine = 0, currentCol = 6,
       screenWidth = 80, screenHeight = 10, lastGPress = False \<rparr>"

section \<open>Loading\<close>

lemma split_nl_nonempty: "split_nl cs \<noteq> []"
  by (induction cs) (auto split: list.splits)

lemma split_nl_length: "length (split_nl cs) = Suc (count_list cs nl)"
  by (induction cs) (auto split: list.splits)

lemma join_split_nl: "join_nl (split_nl cs) = cs"
proof (induction cs)
  case Nil
  show ?case by simp
next
  case (Cons c cs)
  obtain l ls where sp: "split_nl cs = l # ls"
    using split_nl_nonempty [of cs] by (cases "split_nl cs") auto
  show ?case
  proof (cases "c = nl")
    case True
    with Cons sp show ?thesis by simp
  next
    case False
    with Cons sp show ?thesis by (cases ls) auto
  qed
qed

lemma split_nl_pieces: "nl \<notin> set (concat (split_nl cs))"
  by (induction cs) (auto split: list.splits)

lemma split_nl_replicate: "split_nl (replicate n nl) = replicate (Suc n) []"
  by (induction n) simp_all

lemma initState_hundred_lines:
  "initState (replicate 99 nl) fname
     = \<lparr> lines = replicate 100 [], filename = fname,
         startLine = 0, startCol = 0, currentLine = 0, currentCol = 0,
         screenWidth = 0, screenHeight = 0, lastGPress = False \<rparr>"
  unfolding initState_def split_nl_replicate by simp

text \<open>
  C7. Loading cuts the bytes at every newline and nowhere else: \<open>"a\nb\nc"\<close> gives the
  lines \<open>a\<close>, \<open>b\<close>, \<open>c\<close>; \<open>"a\nb\n"\<close> gives \<open>a\<close>, \<open>b\<close> and an empty line; the empty file
  gives one empty line. For every content the document is not empty: it has one line more
  than the content has newlines, no line holds a newline, and the lines joined by
  newlines are the content again, so a newline at the end is treated like any other.
\<close>

theorem split_nl_load:
  "split_nl (''a'' @ [nl] @ ''b'' @ [nl] @ ''c'') = [''a'', ''b'', ''c'']
   \<and> split_nl (''a'' @ [nl] @ ''b'' @ [nl]) = [''a'', ''b'', '''']
   \<and> split_nl '''' = ['''']
   \<and> lines (initState content fname) = split_nl content
   \<and> split_nl content \<noteq> []
   \<and> length (split_nl content) = count_list content nl + 1
   \<and> nl \<notin> set (concat (split_nl content))
   \<and> join_nl (split_nl content) = content"
proof (intro conjI)
  show "split_nl (''a'' @ [nl] @ ''b'' @ [nl] @ ''c'') = [''a'', ''b'', ''c'']"
    by (simp add: nl_def)
  show "split_nl (''a'' @ [nl] @ ''b'' @ [nl]) = [''a'', ''b'', '''']"
    by (simp add: nl_def)
  show "split_nl '''' = ['''']" by simp
  show "lines (initState content fname) = split_nl content"
    by (simp add: initState_def)
  show "split_nl content \<noteq> []" by (rule split_nl_nonempty)
  show "length (split_nl content) = count_list content nl + 1"
    by (simp add: split_nl_length)
  show "nl \<notin> set (concat (split_nl content))" by (rule split_nl_pieces)
  show "join_nl (split_nl content) = content" by (rule join_split_nl)
qed

section \<open>What each step leaves alone\<close>

text \<open>
  The head of the loop body and every handler return a state with the same document,
  file name and first column; they keep the cursor's line inside the document. The
  head of the loop body panics only when the cursor's line is outside the document, a
  click only when the first line shown is negative.
\<close>

lemma go_div_2: "go_div c 2 = (if 0 \<le> c then c div 2 else - ((- c) div 2))"
  by (simp add: go_div_def)

lemma resync_result:
  assumes "cursorOK s"
  shows "resync w h s =
     Inr (s\<lparr>screenWidth := w, screenHeight := h,
            startLine := (if currentLine s < startLine s
                          then (if 0 \<ge> h - 3 then currentLine s - (h - 3) + 1 else currentLine s)
                          else if currentLine s \<ge> startLine s + (h - 3)
                               then currentLine s - (h - 3) + 1 else startLine s),
            currentCol := min (currentCol s) (lineLen s (currentLine s))\<rparr>)"
  using assms
  by (auto simp: resync_def Let_def index_line_def cursorOK_def lineLen_def min_def)

lemma resync_fields:
  assumes "resync w h s = Inr s1"
  shows "lines s1 = lines s \<and> filename s1 = filename s \<and> startCol s1 = startCol s
     \<and> currentLine s1 = currentLine s \<and> lastGPress s1 = lastGPress s
     \<and> screenWidth s1 = w \<and> screenHeight s1 = h
     \<and> cursorOK s1
     \<and> currentLine s1 < startLine s1 + (h - 3)
     \<and> (0 \<le> startLine s \<longrightarrow> 0 \<le> startLine s1)"
  using assms
  by (auto simp: resync_def Let_def index_line_def cursorOK_def
      split: if_splits sum.splits)

lemma moveCursor_fields:
  assumes "moveCursor s dy dx = Inr s'"
  shows "lines s' = lines s \<and> filename s' = filename s \<and> startCol s' = startCol s
     \<and> startLine s' = startLine s \<and> lastGPress s' = lastGPress s
     \<and> screenWidth s' = screenWidth s \<and> screenHeight s' = screenHeight s
     \<and> (cursorOK s \<longrightarrow> cursorOK s')"
  using assms
  by (auto simp: moveCursor_def Let_def index_line_def cursorOK_def
      split: if_splits sum.splits)

lemma moveCursor_total:
  assumes "cursorOK s"
  shows "\<exists>s'. moveCursor s dy dx = Inr s'"
  using assms
  by (auto simp: moveCursor_def Let_def index_line_def cursorOK_def)

lemma clickAt_fields:
  assumes "clickAt h x y s = Inr s'"
  shows "lines s' = lines s \<and> filename s' = filename s \<and> startCol s' = startCol s
     \<and> startLine s' = startLine s \<and> lastGPress s' = lastGPress s
     \<and> screenWidth s' = screenWidth s \<and> screenHeight s' = screenHeight s
     \<and> (cursorOK s \<longrightarrow> cursorOK s')"
  using assms
  by (auto simp: clickAt_def Let_def index_line_def cursorOK_def
      split: if_splits sum.splits)

lemma clickAt_total:
  assumes "0 \<le> startLine s"
  shows "\<exists>s'. clickAt h x y s = Inr s'"
  using assms
  by (auto simp: clickAt_def Let_def index_line_def)

lemma handlers_eq:
  "wheelUp s = s\<lparr>startLine := max 0 (startLine s - 3)\<rparr>"
  "wheelDown c s = s\<lparr>startLine := min (startLine s + 3) (maxStartOf s c)\<rparr>"
  "keyCtrlB c s = s\<lparr>startLine := max 0 (startLine s - c)\<rparr>"
  "keyCtrlF c s = s\<lparr>startLine := min (startLine s + c) (maxStartOf s c)\<rparr>"
  "keyCtrlD c s = s\<lparr>startLine := min (startLine s + go_div c 2) (maxStartOf s c)\<rparr>"
  "keyCtrlU c s = s\<lparr>startLine := max 0 (startLine s - go_div c 2)\<rparr>"
  by (simp_all add: wheelUp_def wheelDown_def keyCtrlB_def keyCtrlU_def keyCtrlF_def
      keyCtrlD_def Let_def maxStartOf_def min_def max_def)

lemma handlers_startLine_nonneg:
  "0 \<le> startLine (wheelUp s)"
  "0 \<le> startLine s \<Longrightarrow> 0 \<le> startLine (wheelDown c s)"
  "0 \<le> startLine (keyCtrlB c s)"
  "0 \<le> startLine (keyCtrlU c s)"
  "0 \<le> currentLine s \<Longrightarrow> 0 \<le> startLine s \<Longrightarrow> currentLine s < startLine s + c
     \<Longrightarrow> 0 \<le> startLine (keyCtrlF c s)"
  "0 \<le> currentLine s \<Longrightarrow> 0 \<le> startLine s \<Longrightarrow> currentLine s < startLine s + c
     \<Longrightarrow> 0 \<le> startLine (keyCtrlD c s)"
  by (auto simp: wheelUp_def wheelDown_def keyCtrlB_def keyCtrlU_def keyCtrlF_def
      keyCtrlD_def maxStartOf_def Let_def go_div_2)

lemma handlers_startLine_bounded:
  "0 \<le> c \<Longrightarrow> startLine s \<le> maxStartOf s c \<Longrightarrow> startLine (wheelUp s) \<le> maxStartOf s c"
  "startLine (wheelDown c s) \<le> maxStartOf s c"
  "0 \<le> c \<Longrightarrow> startLine s \<le> maxStartOf s c \<Longrightarrow> startLine (keyCtrlB c s) \<le> maxStartOf s c"
  "0 \<le> c \<Longrightarrow> startLine s \<le> maxStartOf s c \<Longrightarrow> startLine (keyCtrlU c s) \<le> maxStartOf s c"
  "startLine (keyCtrlF c s) \<le> maxStartOf s c"
  "startLine (keyCtrlD c s) \<le> maxStartOf s c"
  by (auto simp: wheelUp_def wheelDown_def keyCtrlB_def keyCtrlU_def keyCtrlF_def
      keyCtrlD_def maxStartOf_def Let_def go_div_2)

lemma runeG_fields:
  "lines (runeLowerG s) = lines s \<and> filename (runeLowerG s) = filename s
   \<and> startCol (runeLowerG s) = startCol s \<and> startLine (runeLowerG s) = startLine s
   \<and> screenWidth (runeLowerG s) = screenWidth s
   \<and> screenHeight (runeLowerG s) = screenHeight s
   \<and> (cursorOK s \<longrightarrow> cursorOK (runeLowerG s))"
  "lines (runeUpperG s) = lines s \<and> filename (runeUpperG s) = filename s
   \<and> startCol (runeUpperG s) = startCol s \<and> startLine (runeUpperG s) = startLine s
   \<and> screenWidth (runeUpperG s) = screenWidth s
   \<and> screenHeight (runeUpperG s) = screenHeight s
   \<and> (cursorOK s \<longrightarrow> cursorOK (runeUpperG s))"
  by (auto simp: runeLowerG_def runeUpperG_def cursorOK_def)

lemma map_sum_Pair_Inr:
  "(map_sum id (Pair b) x = Inr (brk, s')) = (brk = b \<and> x = Inr s')"
  by (cases x) auto

lemma onRune_fields:
  assumes "onRune r s = Inr (brk, s')"
  shows "lines s' = lines s \<and> filename s' = filename s \<and> startCol s' = startCol s
     \<and> startLine s' = startLine s
     \<and> screenWidth s' = screenWidth s \<and> screenHeight s' = screenHeight s
     \<and> (cursorOK s \<longrightarrow> cursorOK s')"
proof -
  consider (mv) dy dx where "moveCursor s dy dx = Inr s'"
    | (same) "s' = s" | (lo) "s' = runeLowerG s" | (up) "s' = runeUpperG s"
    using assms by (auto simp: onRune_def map_sum_Pair_Inr split: if_splits)
  then show ?thesis
  proof cases
    case mv
    then show ?thesis using moveCursor_fields by blast
  next
    case same
    then show ?thesis by simp
  next
    case lo
    then show ?thesis using runeG_fields(1) [of s] by simp
  next
    case up
    then show ?thesis using runeG_fields(2) [of s] by simp
  qed
qed

lemma onRune_total:
  assumes "cursorOK s"
  shows "\<exists>brk s'. onRune r s = Inr (brk, s')"
proof -
  obtain a b c d where "moveCursor s 1 0 = Inr a" "moveCursor s (- 1) 0 = Inr b"
    "moveCursor s 0 (- 1) = Inr c" "moveCursor s 0 1 = Inr d"
    using moveCursor_total [OF assms] by metis
  then show ?thesis by (auto simp: onRune_def)
qed

lemma onKey_fields:
  assumes "onKey c k r s = Inr (brk, s')"
  shows "lines s' = lines s \<and> filename s' = filename s \<and> startCol s' = startCol s
     \<and> screenWidth s' = screenWidth s \<and> screenHeight s' = screenHeight s
     \<and> (cursorOK s \<longrightarrow> cursorOK s')"
  using assms
  by (cases k)
    (auto simp: map_sum_Pair_Inr cursorOK_def handlers_eq
      dest!: moveCursor_fields onRune_fields)

lemma onKey_total:
  assumes "cursorOK s"
  shows "\<exists>brk s'. onKey c k r s = Inr (brk, s')"
proof -
  obtain a b c d where "moveCursor s 1 0 = Inr a" "moveCursor s (- 1) 0 = Inr b"
    "moveCursor s 0 (- 1) = Inr c" "moveCursor s 0 1 = Inr d"
    using moveCursor_total [OF assms] by metis
  then show ?thesis using onRune_total [OF assms] by (cases k) auto
qed

lemma onMouse_fields:
  assumes "onMouse h x y b s = Inr s'"
  shows "lines s' = lines s \<and> filename s' = filename s \<and> startCol s' = startCol s
     \<and> screenWidth s' = screenWidth s \<and> screenHeight s' = screenHeight s
     \<and> lastGPress s' = lastGPress s
     \<and> (cursorOK s \<longrightarrow> cursorOK s')"
  using assms
  by (auto simp: onMouse_def handlers_eq cursorOK_def split: if_splits
      dest!: clickAt_fields)

lemma dispatch_fields:
  assumes "dispatch h ev s = Inr (brk, s')"
  shows "lines s' = lines s \<and> filename s' = filename s \<and> startCol s' = startCol s
     \<and> screenWidth s' = screenWidth s \<and> screenHeight s' = screenHeight s
     \<and> (cursorOK s \<longrightarrow> cursorOK s')"
  using assms
  by (cases ev) (auto simp: map_sum_Pair_Inr dest!: onKey_fields onMouse_fields)

lemma dispatch_total:
  assumes "cursorOK s" and "0 \<le> startLine s"
  shows "\<exists>brk s'. dispatch h ev s = Inr (brk, s')"
proof (cases ev)
  case (EventMouse x y b)
  obtain s' where "clickAt h x y s = Inr s'"
    using clickAt_total [OF assms(2)] by blast
  then show ?thesis using EventMouse by (auto simp: onMouse_def)
next
  case (EventKey k r)
  then show ?thesis using onKey_total [OF assms(1)] by simp
qed auto

lemma dispatch_runeLowerG:
  "dispatch h (EventKey KeyRune (rune CHR ''g'')) s = Inr (False, runeLowerG s)"
  by (simp add: onRune_def)

section \<open>The first line shown, through one pass\<close>

lemma dispatch_startLine_cases:
  assumes "dispatch h ev s = Inr (brk, s')"
  shows "startLine s' = startLine s \<or> s' = wheelUp s \<or> s' = wheelDown (h - 3) s
     \<or> s' = keyCtrlB (h - 3) s \<or> s' = keyCtrlF (h - 3) s
     \<or> s' = keyCtrlD (h - 3) s \<or> s' = keyCtrlU (h - 3) s"
proof (cases ev)
  case (EventMouse x y b)
  then show ?thesis
    using assms
    by (auto simp: onMouse_def map_sum_Pair_Inr split: if_splits dest!: clickAt_fields)
next
  case (EventKey k r)
  then show ?thesis
    using assms
    by (cases k) (auto simp: map_sum_Pair_Inr dest!: moveCursor_fields onRune_fields)
qed (use assms in auto)

lemma dispatch_startLine_nonneg:
  assumes "dispatch h ev s = Inr (brk, s')"
    and "0 \<le> currentLine s" and "0 \<le> startLine s"
    and "currentLine s < startLine s + (h - 3)"
  shows "0 \<le> startLine s'"
proof -
  note n = handlers_startLine_nonneg
  from dispatch_startLine_cases [OF assms(1)] show ?thesis
  proof (elim disjE)
    assume "startLine s' = startLine s"
    with assms(3) show ?thesis by simp
  next
    assume "s' = wheelUp s"
    then show ?thesis using n(1) by simp
  next
    assume "s' = wheelDown (h - 3) s"
    then show ?thesis using n(2) [OF assms(3)] by simp
  next
    assume "s' = keyCtrlB (h - 3) s"
    then show ?thesis using n(3) by simp
  next
    assume "s' = keyCtrlF (h - 3) s"
    then show ?thesis using n(5) [OF assms(2,3,4)] by simp
  next
    assume "s' = keyCtrlD (h - 3) s"
    then show ?thesis using n(6) [OF assms(2,3,4)] by simp
  next
    assume "s' = keyCtrlU (h - 3) s"
    then show ?thesis using n(4) by simp
  qed
qed

lemma dispatch_startLine_bounded:
  assumes "dispatch h ev s = Inr (brk, s')"
    and "3 \<le> h" and "startLine s \<le> maxStartOf s (h - 3)"
  shows "startLine s' \<le> maxStartOf s' (h - 3)"
proof -
  have m: "maxStartOf s' (h - 3) = maxStartOf s (h - 3)"
    using dispatch_fields [OF assms(1)] by (simp add: maxStartOf_def)
  have c: "0 \<le> h - 3" using assms(2) by simp
  note b = handlers_startLine_bounded
  have "startLine s' \<le> maxStartOf s (h - 3)"
    using dispatch_startLine_cases [OF assms(1)]
  proof (elim disjE)
    assume "startLine s' = startLine s"
    with assms(3) show ?thesis by simp
  next
    assume "s' = wheelUp s"
    then show ?thesis using b(1) [OF c assms(3)] by simp
  next
    assume "s' = wheelDown (h - 3) s"
    then show ?thesis using b(2) by simp
  next
    assume "s' = keyCtrlB (h - 3) s"
    then show ?thesis using b(3) [OF c assms(3)] by simp
  next
    assume "s' = keyCtrlF (h - 3) s"
    then show ?thesis using b(5) by simp
  next
    assume "s' = keyCtrlD (h - 3) s"
    then show ?thesis using b(6) by simp
  next
    assume "s' = keyCtrlU (h - 3) s"
    then show ?thesis using b(4) [OF c assms(3)] by simp
  qed
  then show ?thesis by (simp add: m)
qed

lemma resync_startLine_bounded:
  assumes "resync w h s = Inr s1" and "h \<le> hp"
    and "startLine s \<le> maxStartOf s (hp - 3)"
  shows "startLine s1 \<le> maxStartOf s1 (h - 3)"
  using assms
  by (auto simp: resync_def Let_def index_line_def maxStartOf_def
      split: if_splits sum.splits)

section \<open>Paging, any number of times\<close>

lemma funpow_keyCtrlF_fields:
  "lines ((keyCtrlF c ^^ n) s) = lines s
   \<and> currentLine ((keyCtrlF c ^^ n) s) = currentLine s
   \<and> currentCol ((keyCtrlF c ^^ n) s) = currentCol s"
  by (induction n) (simp_all add: handlers_eq)

lemma funpow_keyCtrlB_fields:
  "lines ((keyCtrlB c ^^ n) s) = lines s
   \<and> currentLine ((keyCtrlB c ^^ n) s) = currentLine s
   \<and> currentCol ((keyCtrlB c ^^ n) s) = currentCol s"
  by (induction n) (simp_all add: handlers_eq)

lemma funpow_keyCtrlF_bounded:
  assumes "startLine s \<le> maxStartOf s c"
  shows "startLine ((keyCtrlF c ^^ n) s) \<le> maxStartOf s c"
proof (cases n)
  case 0
  then show ?thesis using assms by simp
next
  case (Suc m)
  have "maxStartOf ((keyCtrlF c ^^ m) s) c = maxStartOf s c"
    using funpow_keyCtrlF_fields [where c = c and n = m and s = s] by (simp add: maxStartOf_def)
  then show ?thesis
    using handlers_startLine_bounded(5) [where c = c and s = "(keyCtrlF c ^^ m) s"] Suc by simp
qed

lemma funpow_keyCtrlB_nonneg:
  assumes "0 \<le> startLine s"
  shows "0 \<le> startLine ((keyCtrlB c ^^ n) s)"
proof (cases n)
  case 0
  then show ?thesis using assms by simp
next
  case (Suc m)
  then show ?thesis
    using handlers_startLine_nonneg(3) [where c = c and s = "(keyCtrlB c ^^ m) s"] by simp
qed

section \<open>The renderer returns from two columns on\<close>

lemma slice_str_ok:
  "0 \<le> a \<Longrightarrow> a \<le> b \<Longrightarrow> b \<le> int (length str) \<Longrightarrow> \<exists>sub. slice_str str a b = Inr sub"
  by (simp add: slice_str_def)

lemma drawContent_ok:
  assumes "0 \<le> startLine s" and "0 \<le> startCol s" and "2 \<le> w"
    and "\<forall>i\<in>set rows. 0 \<le> i"
  shows "\<exists>ops. drawContent s w rows = Inr ops"
  using assms(4)
proof (induction rows)
  case Nil
  show ?case by simp
next
  case (Cons i rows)
  then obtain ops where rest: "drawContent s w rows = Inr ops" by auto
  have i: "0 \<le> startLine s + i" using Cons.prems assms(1) by simp
  show ?case
  proof (cases "startLine s + i \<ge> int (length (lines s))")
    case True
    then show ?thesis by simp
  next
    case False
    define line where "line = lines s ! nat (startLine s + i)"
    have idx: "index_line (lines s) (startLine s + i) = Inr line"
      using False i by (simp add: index_line_def line_def)
    show ?thesis
    proof (cases "startCol s < int (length line)")
      case True
      define e where "e = (if startCol s + (w - 2) > int (length line)
                           then int (length line) else startCol s + (w - 2))"
      have "\<exists>sub. slice_str line (startCol s) e = Inr sub"
        using True assms(2,3) by (intro slice_str_ok) (auto simp: e_def)
      then obtain sub where "slice_str line (startCol s) e = Inr sub" by blast
      then show ?thesis
        using False idx True rest by (simp add: Let_def e_def)
    next
      case False
      then show ?thesis
        using \<open>\<not> startLine s + i \<ge> int (length (lines s))\<close> idx rest
        by (simp add: Let_def)
    qed
  qed
qed

lemma statusLine_ok: "2 \<le> w \<Longrightarrow> \<exists>st. statusLine s w = Inr st"
  by (simp add: statusLine_def Let_def slice_str_def)

lemma statusLine_narrow: "w < 2 \<Longrightarrow> statusLine s w = Inl SliceBoundsOutOfRange"
  by (simp add: statusLine_def Let_def slice_str_def)

lemma drawUI_ok:
  assumes "0 \<le> startLine s" and "0 \<le> startCol s" and "2 \<le> screenWidth s"
  shows "\<exists>ops. drawUI s = Inr ops"
proof -
  have "\<forall>i\<in>set [0..screenHeight s - 3 - 1]. 0 \<le> i" by simp
  from drawContent_ok [OF assms this] obtain rows
    where "drawContent s (screenWidth s) [0..screenHeight s - 3 - 1] = Inr rows" by blast
  moreover obtain st where "statusLine s (screenWidth s) = Inr st"
    using statusLine_ok [OF assms(3)] by blast
  ultimately show ?thesis by (simp add: drawUI_def Let_def)
qed

lemma drawUI_narrow:
  assumes "screenWidth s < 2"
  shows "\<exists>e. drawUI s = Inl e"
  using statusLine_narrow [OF assms, of s]
  by (cases "drawContent s (screenWidth s) [0..screenHeight s - 3 - 1]")
    (simp_all add: drawUI_def Let_def)

lemma drawContent_row_from_column_zero:
  assumes "startCol s = 0" and "2 \<le> w"
    and "index_line (lines s) (startLine s + i) = Inr line" and "line \<noteq> []"
  shows "drawContent s w [i] = Inr (drawString 1 (1 + i) (take (nat (w - 2)) line))"
proof -
  have lt: "\<not> startLine s + i \<ge> int (length (lines s))"
    using assms(3) by (auto simp: index_line_def split: if_splits)
  have "slice_str line 0 (if 0 + (w - 2) > int (length line) then int (length line)
                           else 0 + (w - 2)) = Inr (take (nat (w - 2)) line)"
    using assms(2) by (auto simp: slice_str_def)
  then show ?thesis
    using lt assms by (simp add: Let_def)
qed

section \<open>The loop\<close>

text \<open>
  A property \<open>P\<close> holds of every state of a run when some \<open>J\<close>, which may depend on the
  inputs still to come, holds at the start, gives \<open>P\<close> after the head of a pass, and gives
  \<open>P\<close> and itself again after the event.
\<close>

lemma mainLoop_trace_rule:
  assumes "J evs s"
    and r: "\<And>w h ev rest s s1. J ((w, h, ev) # rest) s \<Longrightarrow> resync w h s = Inr s1 \<Longrightarrow> P s1"
    and d: "\<And>w h ev rest s s1 brk s2. J ((w, h, ev) # rest) s \<Longrightarrow> resync w h s = Inr s1
              \<Longrightarrow> dispatch h ev s1 = Inr (brk, s2) \<Longrightarrow> P s2 \<and> J rest s2"
  shows "list_all P (fst (mainLoop evs s))"
  using assms(1)
proof (induction evs arbitrary: s)
  case Nil
  show ?case by simp
next
  case (Cons e evs)
  obtain w h ev where e: "e = (w, h, ev)" by (cases e) auto
  show ?case
  proof (cases "resync w h s")
    case (Inl x)
    then show ?thesis by (simp add: e)
  next
    case s1: (Inr s1)
    have p1: "P s1" using r Cons.prems s1 unfolding e by blast
    show ?thesis
    proof (cases "drawUI s1")
      case (Inl x)
      then show ?thesis using s1 p1 by (simp add: e)
    next
      case ui: (Inr screen)
      show ?thesis
      proof (cases "dispatch h ev s1")
        case (Inl x)
        then show ?thesis using s1 ui p1 by (simp add: e)
      next
        case (Inr bs)
        obtain brk s2 where bs: "bs = (brk, s2)" by (cases bs) auto
        have p2: "P s2 \<and> J evs s2"
          using d Cons.prems s1 Inr unfolding e bs by blast
        then have "list_all P (fst (mainLoop evs s2))" using Cons.IH by blast
        then show ?thesis
          using s1 ui Inr p1 p2 by (auto simp: e bs split: prod.splits)
      qed
    qed
  qed
qed

lemma mainLoop_step:
  assumes "resync w h s = Inr s1" and "drawUI s1 = Inr screen"
    and "dispatch h ev s1 = Inr (False, s2)"
  shows "mainLoop ((w, h, ev) # rest) s
           = (s1 # s2 # fst (mainLoop rest s2), snd (mainLoop rest s2))"
  using assms by (simp split: prod.splits)

lemma mainLoop_pass:
  assumes "resync w h s = Inr s1" and "0 \<le> startLine s1" and "0 \<le> startCol s1"
    and "2 \<le> w" and "dispatch h ev s1 = Inr (False, s2)"
  shows "mainLoop ((w, h, ev) # rest) s
           = (s1 # s2 # fst (mainLoop rest s2), snd (mainLoop rest s2))"
proof -
  have "screenWidth s1 = w" using resync_fields [OF assms(1)] by simp
  then obtain screen where "drawUI s1 = Inr screen"
    using drawUI_ok [OF assms(2,3)] assms(4) by auto
  from mainLoop_step [OF assms(1) this assms(5)] show ?thesis .
qed

lemma initState_cursorOK: "cursorOK (initState content fname)"
  using split_nl_nonempty [of content] by (simp add: cursorOK_def initState_def)

lemma list_all_mono: "list_all P xs \<Longrightarrow> (\<And>x. P x \<Longrightarrow> Q x) \<Longrightarrow> list_all Q xs"
  by (induction xs) auto

lemma mainLoop_cursorOK_startNonneg:
  assumes "cursorOK s" and "0 \<le> startLine s"
  shows "list_all (\<lambda>t. cursorOK t \<and> 0 \<le> startLine t) (fst (mainLoop evs s))"
proof (rule mainLoop_trace_rule [where J = "\<lambda>evs t. cursorOK t \<and> 0 \<le> startLine t"])
  show "cursorOK s \<and> 0 \<le> startLine s" using assms by simp
next
  fix w h ev rest s s1
  assume "cursorOK s \<and> 0 \<le> startLine s" and "resync w h s = Inr s1"
  then show "cursorOK s1 \<and> 0 \<le> startLine s1"
    using resync_fields by blast
next
  fix w h ev and rest :: "(int \<times> int \<times> event) list" and s s1 brk s2
  assume a: "cursorOK s \<and> 0 \<le> startLine s" and r: "resync w h s = Inr s1"
    and d: "dispatch h ev s1 = Inr (brk, s2)"
  note f = resync_fields [OF r]
  have "cursorOK s2" using dispatch_fields [OF d] f by blast
  moreover have "0 \<le> startLine s2"
    using dispatch_startLine_nonneg [OF d] f a by (simp add: cursorOK_def)
  ultimately show "(cursorOK s2 \<and> 0 \<le> startLine s2) \<and> cursorOK s2 \<and> 0 \<le> startLine s2"
    by simp
qed

lemma mainLoop_viewBounded:
  assumes "shrinking hp evs" and "0 \<le> startLine s"
    and "startLine s \<le> maxStartOf s (hp - 3)"
  shows "list_all viewBounded (fst (mainLoop evs s))"
proof (rule mainLoop_trace_rule [where
      J = "\<lambda>evs t. 0 \<le> startLine t
             \<and> (\<exists>hp. shrinking hp evs \<and> startLine t \<le> maxStartOf t (hp - 3))"])
  show "0 \<le> startLine s \<and> (\<exists>hp. shrinking hp evs \<and> startLine s \<le> maxStartOf s (hp - 3))"
    using assms by blast
next
  fix w h ev rest s s1
  assume a: "0 \<le> startLine s
      \<and> (\<exists>hp. shrinking hp ((w, h, ev) # rest) \<and> startLine s \<le> maxStartOf s (hp - 3))"
    and r: "resync w h s = Inr s1"
  then obtain hp where hp: "h \<le> hp" "startLine s \<le> maxStartOf s (hp - 3)" by auto
  show "viewBounded s1"
    using resync_startLine_bounded [OF r hp] resync_fields [OF r] a
    by (simp add: viewBounded_def)
next
  fix w h ev rest s s1 brk s2
  assume a: "0 \<le> startLine s
      \<and> (\<exists>hp. shrinking hp ((w, h, ev) # rest) \<and> startLine s \<le> maxStartOf s (hp - 3))"
    and r: "resync w h s = Inr s1" and d: "dispatch h ev s1 = Inr (brk, s2)"
  then obtain hp where hp: "h \<le> hp" "startLine s \<le> maxStartOf s (hp - 3)"
    and h: "3 \<le> h" and rest: "shrinking h rest" by auto
  note f = resync_fields [OF r]
  have b1: "startLine s1 \<le> maxStartOf s1 (h - 3)"
    by (rule resync_startLine_bounded [OF r hp])
  have b2: "startLine s2 \<le> maxStartOf s2 (h - 3)"
    by (rule dispatch_startLine_bounded [OF d h b1])
  have n2: "0 \<le> startLine s2"
    using dispatch_startLine_nonneg [OF d] f a by (simp add: cursorOK_def)
  have "screenHeight s2 = h" using dispatch_fields [OF d] f by simp
  then show "viewBounded s2 \<and> 0 \<le> startLine s2
      \<and> (\<exists>hp. shrinking hp rest \<and> startLine s2 \<le> maxStartOf s2 (hp - 3))"
    using b2 n2 rest by (auto simp: viewBounded_def)
qed

section \<open>The claims\<close>

subsection \<open>C1: the bounds on the first line shown\<close>

text \<open>
  C1 says that after every step of every run from the initial state, with screens of
  any positive size, \<open>0 \<le> startLine \<le> maxStartLine\<close>. The upper bound fails. A document
  of three lines on a screen of four rows shows one line; \<open>G\<close> and the next pass bring
  \<open>startLine\<close> to 2; when the screen then grows to five rows, the head of the pass finds
  the cursor visible and leaves \<open>startLine = 2\<close>, above \<open>maxStartLine = 1\<close>. It fails as
  well on a screen of one row, where \<open>contentHeight\<close> is \<open>-2\<close> and Ctrl-B adds 2 to
  \<open>startLine\<close>.
\<close>

theorem mainLoop_viewBounded_counterexample:
  "\<not> list_all viewBounded (fst (mainLoop
        [(80, 4, EventKey KeyRune (rune CHR ''G'')), (80, 4, EventResize), (80, 5, EventResize)]
        (initState (''a'' @ [nl] @ ''b'' @ [nl] @ ''c'') ''f'')))
   \<and> \<not> list_all viewBounded (fst (mainLoop [(80, 1, EventKey KeyCtrlB 0)]
        (initState ''a'' ''f'')))"
proof
  let ?s0 = "initState (''a'' @ [nl] @ ''b'' @ [nl] @ ''c'') ''f''"
  let ?s1 = "?s0\<lparr>screenWidth := 80, screenHeight := 4\<rparr>"
  let ?s2 = "?s1\<lparr>currentLine := 2\<rparr>"
  let ?s3 = "?s2\<lparr>startLine := 2\<rparr>"
  let ?s5 = "?s3\<lparr>screenHeight := 5\<rparr>"
  have r1: "resync 80 4 ?s0 = Inr ?s1"
    by (simp add: initState_def nl_def Let_def resync_def index_line_def)
  have d1: "dispatch 4 (EventKey KeyRune (rune CHR ''G'')) ?s1 = Inr (False, ?s2)"
    by (simp add: initState_def nl_def Let_def onRune_def runeUpperG_def)
  have r2: "resync 80 4 ?s2 = Inr ?s3"
    by (simp add: initState_def nl_def Let_def resync_def index_line_def)
  have d2: "dispatch 4 EventResize ?s3 = Inr (False, ?s3)" by simp
  have r3: "resync 80 5 ?s3 = Inr ?s5"
    by (simp add: initState_def nl_def Let_def resync_def index_line_def)
  have d3: "dispatch 5 EventResize ?s5 = Inr (False, ?s5)" by simp
  have p1: "mainLoop [(80, 4, EventKey KeyRune (rune CHR ''G'')), (80, 4, EventResize),
          (80, 5, EventResize)] ?s0
        = (?s1 # ?s2 # fst (mainLoop [(80, 4, EventResize), (80, 5, EventResize)] ?s2),
           snd (mainLoop [(80, 4, EventResize), (80, 5, EventResize)] ?s2))"
    by (rule mainLoop_pass [OF r1 _ _ _ d1]) (simp_all add: initState_def)
  have p2: "mainLoop [(80, 4, EventResize), (80, 5, EventResize)] ?s2
        = (?s3 # ?s3 # fst (mainLoop [(80, 5, EventResize)] ?s3),
           snd (mainLoop [(80, 5, EventResize)] ?s3))"
    by (rule mainLoop_pass [OF r2 _ _ _ d2]) (simp_all add: initState_def)
  have p3: "mainLoop [(80, 5, EventResize)] ?s3
        = (?s5 # ?s5 # fst (mainLoop [] ?s5), snd (mainLoop [] ?s5))"
    by (rule mainLoop_pass [OF r3 _ _ _ d3]) (simp_all add: initState_def)
  have "fst (mainLoop [(80, 4, EventKey KeyRune (rune CHR ''G'')), (80, 4, EventResize),
          (80, 5, EventResize)] ?s0) = [?s1, ?s2, ?s3, ?s3, ?s5, ?s5]"
    unfolding p1 p2 p3 by simp
  moreover have "\<not> viewBounded ?s5"
    by (simp add: viewBounded_def maxStartOf_def initState_def nl_def Let_def)
  ultimately show "\<not> list_all viewBounded (fst (mainLoop
        [(80, 4, EventKey KeyRune (rune CHR ''G'')), (80, 4, EventResize), (80, 5, EventResize)]
        ?s0))"
    by simp
next
  let ?t0 = "initState ''a'' ''f''"
  let ?t1 = "?t0\<lparr>screenWidth := 80, screenHeight := 1, startLine := 3\<rparr>"
  let ?t2 = "?t1\<lparr>startLine := 5\<rparr>"
  have r: "resync 80 1 ?t0 = Inr ?t1"
    by (simp add: initState_def nl_def resync_def index_line_def Let_def)
  have d: "dispatch 1 (EventKey KeyCtrlB 0) ?t1 = Inr (False, ?t2)"
    by (simp add: initState_def nl_def keyCtrlB_def Let_def)
  have "mainLoop [(80, 1, EventKey KeyCtrlB 0)] ?t0
        = (?t1 # ?t2 # fst (mainLoop [] ?t2), snd (mainLoop [] ?t2))"
    by (rule mainLoop_pass [OF r _ _ _ d]) (simp_all add: initState_def)
  then have "fst (mainLoop [(80, 1, EventKey KeyCtrlB 0)] ?t0) = [?t1, ?t2]"
    by simp
  moreover have "\<not> viewBounded ?t2"
    by (simp add: viewBounded_def maxStartOf_def initState_def nl_def)
  ultimately show "\<not> list_all viewBounded (fst (mainLoop [(80, 1, EventKey KeyCtrlB 0)] ?t0))"
    by simp
qed

text \<open>
  C1, amended. After every step of every run from the initial state, for screens of any
  size, \<open>0 \<le> startLine\<close>. When moreover every pass sees a screen of at least three rows
  that is no higher than the one before, \<open>startLine \<le> maxStartLine\<close> after every step,
  where \<open>maxStartLine = max(0, len(Document) - contentHeight)\<close> and
  \<open>contentHeight = screenHeight - 3\<close>. The run it is tried on is a document of a hundred
  lines on ten rows, with \<open>G\<close>, then Ctrl-B, then a screen of eight rows and Ctrl-F:
  \<open>startLine\<close> goes 0, 0, 93, 86, 95, 95, with \<open>maxStartLine\<close> 93 on ten rows and 95 on
  eight.
\<close>

theorem mainLoop_startLine_bounds:
  "list_all startNonneg (fst (mainLoop evs (initState content fname)))
   \<and> (shrinking hp evs \<longrightarrow>
        list_all viewBounded (fst (mainLoop evs (initState content fname))))"
proof
  have "list_all (\<lambda>t. cursorOK t \<and> 0 \<le> startLine t)
          (fst (mainLoop evs (initState content fname)))"
    by (rule mainLoop_cursorOK_startNonneg [OF initState_cursorOK])
      (simp add: initState_def)
  then show "list_all startNonneg (fst (mainLoop evs (initState content fname)))"
    by (rule list_all_mono) (simp add: startNonneg_def)
next
  show "shrinking hp evs \<longrightarrow>
        list_all viewBounded (fst (mainLoop evs (initState content fname)))"
  proof
    assume "shrinking hp evs"
    then show "list_all viewBounded (fst (mainLoop evs (initState content fname)))"
      by (rule mainLoop_viewBounded) (simp_all add: initState_def maxStartOf_def)
  qed
qed

theorem mainLoop_startLine_bounds_witness:
  "shrinking 10 [(80, 10, EventKey KeyRune (rune CHR ''G'')), (80, 10, EventKey KeyCtrlB 0),
                 (80, 8, EventKey KeyCtrlF 0)]
   \<and> length (lines (initState (replicate 99 nl) ''f'')) = 100
   \<and> fst (mainLoop [(80, 10, EventKey KeyRune (rune CHR ''G'')), (80, 10, EventKey KeyCtrlB 0),
                    (80, 8, EventKey KeyCtrlF 0)]
           (initState (replicate 99 nl) ''f''))
     = [(initState (replicate 99 nl) ''f'')
          \<lparr>screenWidth := 80, screenHeight := 10\<rparr>,
        (initState (replicate 99 nl) ''f'')
          \<lparr>screenWidth := 80, screenHeight := 10, currentLine := 99\<rparr>,
        (initState (replicate 99 nl) ''f'')
          \<lparr>screenWidth := 80, screenHeight := 10, currentLine := 99, startLine := 93\<rparr>,
        (initState (replicate 99 nl) ''f'')
          \<lparr>screenWidth := 80, screenHeight := 10, currentLine := 99, startLine := 86\<rparr>,
        (initState (replicate 99 nl) ''f'')
          \<lparr>screenWidth := 80, screenHeight := 8, currentLine := 99, startLine := 95\<rparr>,
        (initState (replicate 99 nl) ''f'')
          \<lparr>screenWidth := 80, screenHeight := 8, currentLine := 99, startLine := 95\<rparr>]
   \<and> maxStartOf (initState (replicate 99 nl) ''f'') (10 - 3) = 93
   \<and> maxStartOf (initState (replicate 99 nl) ''f'') (8 - 3) = 95
   \<and> list_all startNonneg
        (fst (mainLoop [(80, 10, EventKey KeyRune (rune CHR ''G'')),
                        (80, 10, EventKey KeyCtrlB 0), (80, 8, EventKey KeyCtrlF 0)]
           (initState (replicate 99 nl) ''f'')))
   \<and> list_all viewBounded
        (fst (mainLoop [(80, 10, EventKey KeyRune (rune CHR ''G'')),
                        (80, 10, EventKey KeyCtrlB 0), (80, 8, EventKey KeyCtrlF 0)]
           (initState (replicate 99 nl) ''f'')))"
proof -
  let ?s0 = "initState (replicate 99 nl) ''f''"
  let ?s1 = "?s0\<lparr>screenWidth := 80, screenHeight := 10\<rparr>"
  let ?s2 = "?s0\<lparr>screenWidth := 80, screenHeight := 10, currentLine := 99\<rparr>"
  let ?s3 = "?s0\<lparr>screenWidth := 80, screenHeight := 10, currentLine := 99,
                startLine := 93\<rparr>"
  let ?s4 = "?s0\<lparr>screenWidth := 80, screenHeight := 10, currentLine := 99,
                startLine := 86\<rparr>"
  let ?s5 = "?s0\<lparr>screenWidth := 80, screenHeight := 8, currentLine := 99,
                startLine := 95\<rparr>"
  let ?G = "EventKey KeyRune (rune CHR ''G'')"
  note i = initState_hundred_lines
  have r1: "resync 80 10 ?s0 = Inr ?s1"
    by (simp add: i resync_def index_line_def Let_def)
  have d1: "dispatch 10 ?G ?s1 = Inr (False, ?s2)"
    by (simp add: i onRune_def runeUpperG_def)
  have r2: "resync 80 10 ?s2 = Inr ?s3"
    by (simp add: i resync_def index_line_def Let_def)
  have d2: "dispatch 10 (EventKey KeyCtrlB 0) ?s3 = Inr (False, ?s4)"
    by (simp add: i keyCtrlB_def Let_def)
  have r3: "resync 80 8 ?s4 = Inr ?s5"
    by (simp add: i resync_def index_line_def Let_def)
  have d3: "dispatch 8 (EventKey KeyCtrlF 0) ?s5 = Inr (False, ?s5)"
    by (simp add: i keyCtrlF_def maxStartOf_def Let_def)
  have p1: "mainLoop [(80, 10, ?G), (80, 10, EventKey KeyCtrlB 0), (80, 8, EventKey KeyCtrlF 0)]
              ?s0
        = (?s1 # ?s2 # fst (mainLoop [(80, 10, EventKey KeyCtrlB 0),
                                       (80, 8, EventKey KeyCtrlF 0)] ?s2),
           snd (mainLoop [(80, 10, EventKey KeyCtrlB 0), (80, 8, EventKey KeyCtrlF 0)] ?s2))"
    by (rule mainLoop_pass [OF r1 _ _ _ d1]) (simp_all add: initState_def)
  have p2: "mainLoop [(80, 10, EventKey KeyCtrlB 0), (80, 8, EventKey KeyCtrlF 0)] ?s2
        = (?s3 # ?s4 # fst (mainLoop [(80, 8, EventKey KeyCtrlF 0)] ?s4),
           snd (mainLoop [(80, 8, EventKey KeyCtrlF 0)] ?s4))"
    by (rule mainLoop_pass [OF r2 _ _ _ d2]) (simp_all add: initState_def)
  have p3: "mainLoop [(80, 8, EventKey KeyCtrlF 0)] ?s4
        = (?s5 # ?s5 # fst (mainLoop [] ?s5), snd (mainLoop [] ?s5))"
    by (rule mainLoop_pass [OF r3 _ _ _ d3]) (simp_all add: initState_def)
  have tr: "fst (mainLoop [(80, 10, ?G), (80, 10, EventKey KeyCtrlB 0),
                           (80, 8, EventKey KeyCtrlF 0)] ?s0)
        = [?s1, ?s2, ?s3, ?s4, ?s5, ?s5]"
    unfolding p1 p2 p3 by simp
  have sh: "shrinking 10 [(80, 10, ?G), (80, 10, EventKey KeyCtrlB 0),
                          (80, 8, EventKey KeyCtrlF 0)]"
    by simp
  have len: "length (lines ?s0) = 100" by (simp add: i)
  have m: "maxStartOf ?s0 (10 - 3) = 93" "maxStartOf ?s0 (8 - 3) = 95"
    by (simp_all add: i maxStartOf_def)
  note t = mainLoop_startLine_bounds
    [where evs = "[(80, 10, ?G), (80, 10, EventKey KeyCtrlB 0), (80, 8, EventKey KeyCtrlF 0)]"
      and content = "replicate 99 nl" and fname = "''f''" and hp = 10]
  have n: "list_all startNonneg
        (fst (mainLoop [(80, 10, ?G), (80, 10, EventKey KeyCtrlB 0),
                        (80, 8, EventKey KeyCtrlF 0)] ?s0))"
    using t by blast
  have b: "list_all viewBounded
        (fst (mainLoop [(80, 10, ?G), (80, 10, EventKey KeyCtrlB 0),
                        (80, 8, EventKey KeyCtrlF 0)] ?s0))"
    using t sh by blast
  show ?thesis
    by (intro conjI; (rule sh len tr m n b))
qed

subsection \<open>C2: the head of the loop body\<close>

text \<open>
  C2. In a state with \<open>contentHeight > 0\<close> and the cursor's line inside the document, the
  head of the loop body returns; \<open>startLine\<close> becomes the cursor's line when the cursor is
  above the view, the cursor's line minus \<open>contentHeight\<close> plus 1 when it is at or below
  the bottom edge, and stays otherwise; the cursor is then visible, and no other
  \<open>startLine\<close> that shows the cursor is nearer to the old one. \<open>currentCol\<close> is capped at
  the length of the cursor's line, which for a column that is not negative (the data
  model has no other) is the clamp to \<open>[0, len]\<close>. Nothing else changes but the stored
  screen size. With ten rows and a hundred lines, the cursor on line 50 and \<open>startLine = 0\<close>
  give \<open>startLine = 44\<close>; the cursor on line 0 and \<open>startLine = 44\<close> give \<open>startLine = 0\<close>.
\<close>

theorem resync_tracks_cursor:
  "(0 < h - 3 \<and> 0 \<le> currentLine s \<and> currentLine s < int (length (lines s)) \<longrightarrow>
     (\<exists>s'. resync w h s = Inr s'
       \<and> startLine s' = (if currentLine s < startLine s then currentLine s
                          else if currentLine s \<ge> startLine s + (h - 3)
                               then currentLine s - (h - 3) + 1
                               else startLine s)
       \<and> startLine s' \<le> currentLine s' \<and> currentLine s' < startLine s' + (h - 3)
       \<and> (\<forall>t. t \<le> currentLine s \<and> currentLine s < t + (h - 3)
                \<longrightarrow> \<bar>startLine s' - startLine s\<bar> \<le> \<bar>t - startLine s\<bar>)
       \<and> currentCol s' = min (currentCol s) (lineLen s (currentLine s))
       \<and> (0 \<le> currentCol s \<longrightarrow>
             currentCol s' = clamp (currentCol s) 0 (lineLen s' (currentLine s')))
       \<and> s' = s\<lparr>screenWidth := w, screenHeight := h, startLine := startLine s',
                  currentCol := currentCol s'\<rparr>))
   \<and> (length (lines s) = 100 \<and> currentLine s = 50 \<and> startLine s = 0
         \<longrightarrow> (\<exists>s'. resync w 10 s = Inr s' \<and> startLine s' = 44))
   \<and> (length (lines s) = 100 \<and> currentLine s = 0 \<and> startLine s = 44
         \<longrightarrow> (\<exists>s'. resync w 10 s = Inr s' \<and> startLine s' = 0))"
proof (intro conjI impI)
  assume a: "0 < h - 3 \<and> 0 \<le> currentLine s \<and> currentLine s < int (length (lines s))"
  then have ok: "cursorOK s" by (simp add: cursorOK_def)
  show "\<exists>s'. resync w h s = Inr s'
       \<and> startLine s' = (if currentLine s < startLine s then currentLine s
                          else if currentLine s \<ge> startLine s + (h - 3)
                               then currentLine s - (h - 3) + 1
                               else startLine s)
       \<and> startLine s' \<le> currentLine s' \<and> currentLine s' < startLine s' + (h - 3)
       \<and> (\<forall>t. t \<le> currentLine s \<and> currentLine s < t + (h - 3)
                \<longrightarrow> \<bar>startLine s' - startLine s\<bar> \<le> \<bar>t - startLine s\<bar>)
       \<and> currentCol s' = min (currentCol s) (lineLen s (currentLine s))
       \<and> (0 \<le> currentCol s \<longrightarrow>
             currentCol s' = clamp (currentCol s) 0 (lineLen s' (currentLine s')))
       \<and> s' = s\<lparr>screenWidth := w, screenHeight := h, startLine := startLine s',
                  currentCol := currentCol s'\<rparr>"
    unfolding resync_result [OF ok] using a
    by (auto simp: lineLen_def clamp_def)
next
  assume "length (lines s) = 100 \<and> currentLine s = 50 \<and> startLine s = 0"
  then show "\<exists>s'. resync w 10 s = Inr s' \<and> startLine s' = 44"
    by (auto simp: resync_def Let_def index_line_def)
next
  assume "length (lines s) = 100 \<and> currentLine s = 0 \<and> startLine s = 44"
  then show "\<exists>s'. resync w 10 s = Inr s' \<and> startLine s' = 0"
    by (auto simp: resync_def Let_def index_line_def)
qed

theorem resync_tracks_cursor_witness:
  "0 < (10::int) - 3 \<and> 0 \<le> currentLine hundred
   \<and> currentLine hundred < int (length (lines hundred))
   \<and> length (lines hundred) = 100 \<and> currentLine hundred = 50 \<and> startLine hundred = 0
   \<and> (\<exists>s'. resync 80 10 hundred = Inr s' \<and> startLine s' = 44 \<and> currentCol s' = 3)
   \<and> length (lines (hundred\<lparr>currentLine := 0, startLine := 44\<rparr>)) = 100
   \<and> (\<exists>s'. resync 80 10 (hundred\<lparr>currentLine := 0, startLine := 44\<rparr>) = Inr s'
            \<and> startLine s' = 0)"
  using resync_tracks_cursor [where h = 10 and s = hundred and w = 80]
    resync_tracks_cursor [where h = 10 and w = 80
      and s = "hundred\<lparr>currentLine := 0, startLine := 44\<rparr>"]
  by (auto simp: hundred_def lineLen_def)

subsection \<open>C3: moveCursor\<close>

text \<open>
  C3 says that \<open>moveCursor\<close> clamps the new line and the new column. It does not: a move
  that would leave the range is dropped, not cut down. From line 0 of three lines a move by
  5 lines leaves the cursor on line 0, where the clamp gives line 2; and a move by
  \<open>(1, -1)\<close> from the end of a line of six bytes to a line of one byte leaves the
  column at 6, where the clamp gives 1.
\<close>

theorem moveCursor_clamp_counterexample:
  "cursorOK three \<and> columnOK three
   \<and> moveCursor three 5 0 = Inr three
   \<and> currentLine three \<noteq> clamp (currentLine three + 5) 0 (int (length (lines three)) - 1)
   \<and> moveCursor three 1 (- 1) = Inr (three\<lparr>currentLine := 1\<rparr>)
   \<and> currentCol (three\<lparr>currentLine := 1\<rparr>)
        \<noteq> clamp (currentCol three + (- 1)) 0 (lineLen three 1)"
  by (simp add: three_def cursorOK_def columnOK_def lineLen_def clamp_def moveCursor_def
      index_line_def Let_def)

text \<open>
  C3, amended. In a state that satisfies invariants 1 and 2, \<open>moveCursor\<close> returns; with
  \<open>dLine \<noteq> 0\<close> the cursor's line becomes \<open>currentLine + dLine\<close> when that is a line of
  the document and stays otherwise; with \<open>dCol \<noteq> 0\<close> the column then becomes
  \<open>currentCol + dCol\<close> when that lies in \<open>[0, L]\<close>, \<open>L\<close> the length of the line the
  cursor is on now, and stays otherwise; nothing else changes. For a step of one line
  this is the clamp of the line, and for a step of one column from a column within the
  new line it is the clamp of the column.
\<close>

theorem moveCursor_steps:
  assumes "cursorOK s" and "columnOK s"
  shows "\<exists>s'. moveCursor s dy dx = Inr s' \<and> cursorOK s'
     \<and> currentLine s' = (if dy \<noteq> 0 \<and> 0 \<le> currentLine s + dy
                             \<and> currentLine s + dy < int (length (lines s))
                          then currentLine s + dy else currentLine s)
     \<and> currentCol s' = (if dx \<noteq> 0 \<and> 0 \<le> currentCol s + dx
                            \<and> currentCol s + dx \<le> lineLen s (currentLine s')
                         then currentCol s + dx else currentCol s)
     \<and> s' = s\<lparr>currentLine := currentLine s', currentCol := currentCol s'\<rparr>
     \<and> (\<bar>dy\<bar> = 1 \<longrightarrow>
          currentLine s' = clamp (currentLine s + dy) 0 (int (length (lines s)) - 1))
     \<and> (\<bar>dx\<bar> = 1 \<and> currentCol s \<le> lineLen s (currentLine s') \<longrightarrow>
          currentCol s' = clamp (currentCol s + dx) 0 (lineLen s (currentLine s')))"
proof -
  define l where "l = (if dy \<noteq> 0 \<and> 0 \<le> currentLine s + dy
                          \<and> currentLine s + dy < int (length (lines s))
                       then currentLine s + dy else currentLine s)"
  define c where "c = (if dx \<noteq> 0 \<and> 0 \<le> currentCol s + dx
                          \<and> currentCol s + dx \<le> lineLen s l
                       then currentCol s + dx else currentCol s)"
  define s' where "s' = s\<lparr>currentLine := l, currentCol := c\<rparr>"
  have l: "0 \<le> l" "l < int (length (lines s))"
    using assms(1) by (auto simp: l_def cursorOK_def)
  have s1: "(if dy \<noteq> 0
             then (let newLine = currentLine s + dy
                   in if newLine \<ge> 0 \<and> newLine < int (length (lines s))
                      then s\<lparr>currentLine := newLine\<rparr> else s)
             else s) = s\<lparr>currentLine := l\<rparr>"
    by (simp add: l_def Let_def)
  have m: "moveCursor s dy dx = Inr s'"
    unfolding moveCursor_def s1 using l
    by (simp add: Let_def index_line_def s'_def c_def lineLen_def)
  have f: "currentLine s' = l" "currentCol s' = c" "lines s' = lines s"
    by (simp_all add: s'_def)
  have ok: "cursorOK s'" using l by (simp add: cursorOK_def f)
  have cl: "\<bar>dy\<bar> = 1 \<longrightarrow> l = clamp (currentLine s + dy) 0 (int (length (lines s)) - 1)"
    using assms(1) by (auto simp: l_def clamp_def cursorOK_def)
  have cc: "\<bar>dx\<bar> = 1 \<and> currentCol s \<le> lineLen s l \<longrightarrow>
              c = clamp (currentCol s + dx) 0 (lineLen s l)"
    using assms(2) by (auto simp: c_def clamp_def columnOK_def)
  have "moveCursor s dy dx = Inr s' \<and> cursorOK s'
     \<and> currentLine s' = (if dy \<noteq> 0 \<and> 0 \<le> currentLine s + dy
                             \<and> currentLine s + dy < int (length (lines s))
                          then currentLine s + dy else currentLine s)
     \<and> currentCol s' = (if dx \<noteq> 0 \<and> 0 \<le> currentCol s + dx
                            \<and> currentCol s + dx \<le> lineLen s (currentLine s')
                         then currentCol s + dx else currentCol s)
     \<and> s' = s\<lparr>currentLine := currentLine s', currentCol := currentCol s'\<rparr>
     \<and> (\<bar>dy\<bar> = 1 \<longrightarrow>
          currentLine s' = clamp (currentLine s + dy) 0 (int (length (lines s)) - 1))
     \<and> (\<bar>dx\<bar> = 1 \<and> currentCol s \<le> lineLen s (currentLine s') \<longrightarrow>
          currentCol s' = clamp (currentCol s + dx) 0 (lineLen s (currentLine s')))"
    unfolding f using m ok cl cc
    by (intro conjI) (simp_all add: l_def [symmetric] c_def [symmetric] s'_def)
  then show ?thesis by (rule exI)
qed

theorem moveCursor_steps_witness:
  "cursorOK three \<and> columnOK three \<and> \<bar>1::int\<bar> = 1 \<and> \<bar>- 1::int\<bar> = 1
   \<and> moveCursor three 1 0 = Inr (three\<lparr>currentLine := 1\<rparr>)
   \<and> currentLine (three\<lparr>currentLine := 1\<rparr>)
       = clamp (currentLine three + 1) 0 (int (length (lines three)) - 1)
   \<and> currentCol three \<le> lineLen three 0
   \<and> moveCursor three 0 (- 1) = Inr (three\<lparr>currentCol := 5\<rparr>)
   \<and> currentCol (three\<lparr>currentCol := 5\<rparr>)
       = clamp (currentCol three + (- 1)) 0 (lineLen three 0)"
  using moveCursor_steps [where s = three and dy = 1 and dx = 0]
    moveCursor_steps [where s = three and dy = 0 and dx = "- 1"]
  by (auto simp: three_def cursorOK_def columnOK_def lineLen_def clamp_def)

subsection \<open>C4: the chord\<close>

text \<open>
  C4. The rune \<open>g\<close> on a state without a pending \<open>g\<close> sets \<open>lastGPress\<close> and changes
  nothing else; on a state with a pending \<open>g\<close> it sets the cursor's line to 0 and clears
  the flag. \<open>moveCursor\<close> keeps the flag. So the loop fed \<open>g\<close>, arrow down, \<open>g\<close>, on
  screens at least two columns wide, runs its three passes without a panic: the flag is
  set after the first \<open>g\<close>, still set after the arrow, and after the second \<open>g\<close> the
  cursor is on line 0 with the flag cleared.
\<close>

theorem runeLowerG_chord:
  "(\<not> lastGPress s \<longrightarrow> runeLowerG s = s\<lparr>lastGPress := True\<rparr>)
   \<and> (lastGPress s \<longrightarrow> runeLowerG s = s\<lparr>currentLine := 0, lastGPress := False\<rparr>)
   \<and> (moveCursor s dy dx = Inr s' \<longrightarrow> lastGPress s' = lastGPress s)
   \<and> (cursorOK s \<and> 0 \<le> startLine s \<and> 0 \<le> startCol s \<and> \<not> lastGPress s
        \<and> 2 \<le> w1 \<and> 2 \<le> w2 \<and> 2 \<le> w3 \<longrightarrow>
        (\<exists>s1 s2 s3 s4 s5 s6.
           mainLoop [(w1, h1, EventKey KeyRune (rune CHR ''g'')),
                     (w2, h2, EventKey KeyDown r),
                     (w3, h3, EventKey KeyRune (rune CHR ''g''))] s
             = ([s1, s2, s3, s4, s5, s6], Polling)
           \<and> s2 = runeLowerG s1 \<and> lastGPress s2 \<and> currentLine s2 = currentLine s
           \<and> moveCursor s3 1 0 = Inr s4 \<and> lastGPress s4
           \<and> s6 = runeLowerG s5 \<and> currentLine s6 = 0 \<and> \<not> lastGPress s6))"
proof (intro conjI impI)
  show "\<not> lastGPress s \<Longrightarrow> runeLowerG s = s\<lparr>lastGPress := True\<rparr>"
    by (simp add: runeLowerG_def)
  show "lastGPress s \<Longrightarrow> runeLowerG s = s\<lparr>currentLine := 0, lastGPress := False\<rparr>"
    by (simp add: runeLowerG_def)
  show "moveCursor s dy dx = Inr s' \<Longrightarrow> lastGPress s' = lastGPress s"
    using moveCursor_fields by blast
next
  assume a: "cursorOK s \<and> 0 \<le> startLine s \<and> 0 \<le> startCol s \<and> \<not> lastGPress s
        \<and> 2 \<le> w1 \<and> 2 \<le> w2 \<and> 2 \<le> w3"
  let ?g = "EventKey KeyRune (rune CHR ''g'')"
  obtain s1 where r1: "resync w1 h1 s = Inr s1"
    using resync_result a by blast
  note f1 = resync_fields [OF r1]
  define s2 where "s2 = runeLowerG s1"
  have d1: "dispatch h1 ?g s1 = Inr (False, s2)"
    unfolding s2_def by (rule dispatch_runeLowerG)
  note g1 = dispatch_fields [OF d1]
  have s2: "lastGPress s2" "currentLine s2 = currentLine s" "cursorOK s2"
    "startLine s2 = startLine s1"
    using f1 a by (simp_all add: s2_def runeLowerG_def cursorOK_def)
  obtain s3 where r2: "resync w2 h2 s2 = Inr s3"
    using resync_result s2(3) by blast
  note f2 = resync_fields [OF r2]
  obtain s4 where m: "moveCursor s3 1 0 = Inr s4"
    using moveCursor_total f2 by blast
  note f3 = moveCursor_fields [OF m]
  have d2: "dispatch h2 (EventKey KeyDown r) s3 = Inr (False, s4)"
    using m by simp
  obtain s5 where r3: "resync w3 h3 s4 = Inr s5"
    using resync_result f3 f2 by blast
  note f4 = resync_fields [OF r3]
  define s6 where "s6 = runeLowerG s5"
  have d3: "dispatch h3 ?g s5 = Inr (False, s6)"
    unfolding s6_def by (rule dispatch_runeLowerG)
  have l4: "lastGPress s4" using f3 f2 s2(1) by simp
  then have s6: "currentLine s6 = 0" "\<not> lastGPress s6"
    using f4 by (simp_all add: s6_def runeLowerG_def)
  have p1: "mainLoop [(w1, h1, ?g), (w2, h2, EventKey KeyDown r), (w3, h3, ?g)] s
      = (s1 # s2 # fst (mainLoop [(w2, h2, EventKey KeyDown r), (w3, h3, ?g)] s2),
         snd (mainLoop [(w2, h2, EventKey KeyDown r), (w3, h3, ?g)] s2))"
    by (rule mainLoop_pass [OF r1 _ _ _ d1]) (use f1 a in simp_all)
  have p2: "mainLoop [(w2, h2, EventKey KeyDown r), (w3, h3, ?g)] s2
      = (s3 # s4 # fst (mainLoop [(w3, h3, ?g)] s4), snd (mainLoop [(w3, h3, ?g)] s4))"
    by (rule mainLoop_pass [OF r2 _ _ _ d2]) (use f1 f2 g1 s2 a in simp_all)
  have p3: "mainLoop [(w3, h3, ?g)] s4
      = (s5 # s6 # fst (mainLoop [] s6), snd (mainLoop [] s6))"
    by (rule mainLoop_pass [OF r3 _ _ _ d3]) (use f1 f2 f3 f4 g1 s2 a in simp_all)
  have "mainLoop [(w1, h1, ?g), (w2, h2, EventKey KeyDown r), (w3, h3, ?g)] s
      = ([s1, s2, s3, s4, s5, s6], Polling)"
    unfolding p1 p2 p3 by simp
  then show "\<exists>s1 s2 s3 s4 s5 s6.
           mainLoop [(w1, h1, ?g), (w2, h2, EventKey KeyDown r), (w3, h3, ?g)] s
             = ([s1, s2, s3, s4, s5, s6], Polling)
           \<and> s2 = runeLowerG s1 \<and> lastGPress s2 \<and> currentLine s2 = currentLine s
           \<and> moveCursor s3 1 0 = Inr s4 \<and> lastGPress s4
           \<and> s6 = runeLowerG s5 \<and> currentLine s6 = 0 \<and> \<not> lastGPress s6"
    using s2 m l4 s6 s2_def s6_def by blast
qed

theorem runeLowerG_chord_witness:
  "\<not> lastGPress three
   \<and> runeLowerG three = three\<lparr>lastGPress := True\<rparr>
   \<and> lastGPress (three\<lparr>currentLine := 2, lastGPress := True\<rparr>)
   \<and> runeLowerG (three\<lparr>currentLine := 2, lastGPress := True\<rparr>)
       = three\<lparr>currentLine := 0, lastGPress := False\<rparr>
   \<and> moveCursor (three\<lparr>lastGPress := True\<rparr>) 1 0
       = Inr (three\<lparr>currentLine := 1, lastGPress := True\<rparr>)
   \<and> lastGPress (three\<lparr>currentLine := 1, lastGPress := True\<rparr>)
   \<and> cursorOK three \<and> 0 \<le> startLine three \<and> 0 \<le> startCol three
   \<and> (\<exists>s1 s2 s3 s4 s5 s6.
         mainLoop [(80, 10, EventKey KeyRune (rune CHR ''g'')), (80, 10, EventKey KeyDown 0),
                   (80, 10, EventKey KeyRune (rune CHR ''g''))] three
           = ([s1, s2, s3, s4, s5, s6], Polling)
         \<and> lastGPress s2 \<and> lastGPress s4 \<and> currentLine s6 = 0 \<and> \<not> lastGPress s6)"
proof -
  have h: "\<not> lastGPress three" "cursorOK three" "0 \<le> startLine three" "0 \<le> startCol three"
    by (simp_all add: three_def cursorOK_def)
  have l: "lastGPress (three\<lparr>currentLine := 2, lastGPress := True\<rparr>)"
    "lastGPress (three\<lparr>currentLine := 1, lastGPress := True\<rparr>)" by simp_all
  have m: "moveCursor (three\<lparr>lastGPress := True\<rparr>) 1 0
       = Inr (three\<lparr>currentLine := 1, lastGPress := True\<rparr>)"
    by (simp add: three_def moveCursor_def)
  note t1 = runeLowerG_chord [where s = three and ?w1.0 = 80 and ?w2.0 = 80 and ?w3.0 = 80
      and ?h1.0 = 10 and ?h2.0 = 10 and ?h3.0 = 10 and r = 0]
  note t2 = runeLowerG_chord [where s = "three\<lparr>currentLine := 2, lastGPress := True\<rparr>"]
  have a: "runeLowerG three = three\<lparr>lastGPress := True\<rparr>"
    using t1 h(1) by blast
  have "runeLowerG (three\<lparr>currentLine := 2, lastGPress := True\<rparr>)
       = three\<lparr>currentLine := 2, lastGPress := True\<rparr>\<lparr>currentLine := 0, lastGPress := False\<rparr>"
    using t2 l(1) by blast
  then have b: "runeLowerG (three\<lparr>currentLine := 2, lastGPress := True\<rparr>)
       = three\<lparr>currentLine := 0, lastGPress := False\<rparr>" by simp
  have "\<exists>s1 s2 s3 s4 s5 s6.
           mainLoop [(80, 10, EventKey KeyRune (rune CHR ''g'')),
                     (80, 10, EventKey KeyDown 0),
                     (80, 10, EventKey KeyRune (rune CHR ''g''))] three
             = ([s1, s2, s3, s4, s5, s6], Polling)
           \<and> s2 = runeLowerG s1 \<and> lastGPress s2 \<and> currentLine s2 = currentLine three
           \<and> moveCursor s3 1 0 = Inr s4 \<and> lastGPress s4
           \<and> s6 = runeLowerG s5 \<and> currentLine s6 = 0 \<and> \<not> lastGPress s6"
    using t1 h by simp
  then have c: "\<exists>s1 s2 s3 s4 s5 s6.
         mainLoop [(80, 10, EventKey KeyRune (rune CHR ''g'')), (80, 10, EventKey KeyDown 0),
                   (80, 10, EventKey KeyRune (rune CHR ''g''))] three
           = ([s1, s2, s3, s4, s5, s6], Polling)
         \<and> lastGPress s2 \<and> lastGPress s4 \<and> currentLine s6 = 0 \<and> \<not> lastGPress s6"
    by blast
  show ?thesis
    by (intro conjI; (rule h l m a b c))
qed

subsection \<open>C5: the click\<close>

text \<open>
  C5. A click at \<open>(x, y)\<close> changes nothing when \<open>y - 1\<close> is outside \<open>[0, h - 3)\<close> or
  \<open>startLine + (y - 1)\<close> is at or past the end of the document. Otherwise, with
  \<open>startLine\<close> not negative (the data model has no other), the cursor's line becomes
  \<open>startLine + (y - 1)\<close>, and the column becomes the smaller of \<open>startCol + (x - 1)\<close> and
  the length of that line when \<open>startCol + (x - 1)\<close> is not negative, and stays when it
  is. With \<open>startLine = 5\<close>, \<open>startCol = 2\<close>, a content region of three rows or more
  and a document of more than seven lines, a click at \<open>(4, 3)\<close> sets the line to 7 and
  the column to \<open>clamp(5, 0, len(Document[7]))\<close>.
\<close>

theorem clickAt_maps:
  "(y - 1 < 0 \<or> h - 3 \<le> y - 1 \<or> int (length (lines s)) \<le> startLine s + (y - 1)
      \<longrightarrow> clickAt h x y s = Inr s)
   \<and> (0 \<le> startLine s \<and> 0 \<le> y - 1 \<and> y - 1 < h - 3
       \<and> startLine s + (y - 1) < int (length (lines s))
      \<longrightarrow> clickAt h x y s =
            Inr (s\<lparr>currentLine := startLine s + (y - 1),
                    currentCol := (if 0 \<le> startCol s + (x - 1)
                                   then min (startCol s + (x - 1))
                                          (lineLen s (startLine s + (y - 1)))
                                   else currentCol s)\<rparr>))
   \<and> (startLine s = 5 \<and> startCol s = 2 \<and> 3 \<le> h - 3 \<and> 7 < int (length (lines s))
      \<longrightarrow> clickAt h 4 3 s
            = Inr (s\<lparr>currentLine := 7, currentCol := clamp 5 0 (lineLen s 7)\<rparr>))"
  by (auto simp: clickAt_def Let_def index_line_def lineLen_def clamp_def min_def)

theorem clickAt_maps_witness:
  "0 \<le> startLine (hundred\<lparr>startLine := 5, startCol := 2\<rparr>)
   \<and> startLine (hundred\<lparr>startLine := 5, startCol := 2\<rparr>) = 5
   \<and> startCol (hundred\<lparr>startLine := 5, startCol := 2\<rparr>) = 2
   \<and> (0::int) \<le> 3 - 1 \<and> (3::int) - 1 < 10 - 3 \<and> (3::int) \<le> 10 - 3
   \<and> 7 < int (length (lines (hundred\<lparr>startLine := 5, startCol := 2\<rparr>)))
   \<and> clickAt 10 4 3 (hundred\<lparr>startLine := 5, startCol := 2\<rparr>)
       = Inr (hundred\<lparr>startLine := 5, startCol := 2, currentLine := 7, currentCol := 3\<rparr>)
   \<and> (10::int) - 3 \<le> 9 - 1
   \<and> clickAt 10 4 9 (hundred\<lparr>startLine := 5, startCol := 2\<rparr>)
       = Inr (hundred\<lparr>startLine := 5, startCol := 2\<rparr>)"
  using clickAt_maps [where y = 3 and h = 10 and x = 4
      and s = "hundred\<lparr>startLine := 5, startCol := 2\<rparr>"]
    clickAt_maps [where y = 9 and h = 10 and x = 4
      and s = "hundred\<lparr>startLine := 5, startCol := 2\<rparr>"]
  by (simp add: hundred_def lineLen_def clamp_def)

subsection \<open>C6: the renderer on a screen one column wide\<close>

text \<open>
  C6 says that the renderer never fails for a screen of positive width and height. On a
  screen one column wide it panics: \<open>w - 2\<close> is \<open>-1\<close>, so \<open>line[start:end]\<close> is asked for
  \<open>line[0:-1]\<close>, and \<open>status[:w-2]\<close> for \<open>status[:-1]\<close>. The run below is the initial
  state of the one-line document \<open>a\<close> on a screen of one column and ten rows: the head of
  the pass returns a state that satisfies the invariants, and \<open>drawUI\<close> panics on it.
  (\<open>drawUI_narrow\<close> above: it panics in every state whose width is below 2;
  \<open>drawUI_ok\<close>: from two columns on it returns.)
\<close>

theorem drawUI_width_one:
  "mainLoop [(1, 10, EventResize)] (initState ''a'' ''f'')
     = ([(initState ''a'' ''f'')\<lparr>screenWidth := 1, screenHeight := 10\<rparr>],
        Panicked SliceBoundsOutOfRange)
   \<and> drawUI ((initState ''a'' ''f'')\<lparr>screenWidth := 1, screenHeight := 10\<rparr>)
     = Inl SliceBoundsOutOfRange"
proof (intro conjI)
  let ?s1 = "(initState ''a'' ''f'')\<lparr>screenWidth := 1, screenHeight := 10\<rparr>"
  have r: "resync 1 10 (initState ''a'' ''f'') = Inr ?s1"
    by (simp add: initState_def nl_def resync_def index_line_def Let_def)
  have "[0..(6::int)] = 0 # [1..6]" by (simp add: upto_rec1)
  then show u: "drawUI ?s1 = Inl SliceBoundsOutOfRange"
    by (simp add: drawUI_def initState_def nl_def index_line_def slice_str_def)
  show "mainLoop [(1, 10, EventResize)] (initState ''a'' ''f'')
     = ([?s1], Panicked SliceBoundsOutOfRange)"
    using r u by simp
qed

subsection \<open>C8: paging\<close>

text \<open>
  C8. From a state with \<open>0 \<le> startLine \<le> maxStartLine\<close>, any number of Ctrl-F leaves
  \<open>startLine \<le> maxStartLine\<close>, and any number of Ctrl-B leaves \<open>0 \<le> startLine\<close>.
  Neither changes the cursor's line or column, whatever the content height. The two keys
  are dispatched to these handlers with the content height \<open>h - 3\<close>.
\<close>

theorem page_scroll_bounds:
  "(0 \<le> startLine s \<and> startLine s \<le> maxStartOf s (screenHeight s - 3) \<longrightarrow>
      startLine ((keyCtrlF (screenHeight s - 3) ^^ n) s) \<le> maxStartOf s (screenHeight s - 3)
      \<and> 0 \<le> startLine ((keyCtrlB (screenHeight s - 3) ^^ n) s))
   \<and> currentLine ((keyCtrlF c ^^ n) s) = currentLine s
   \<and> currentCol ((keyCtrlF c ^^ n) s) = currentCol s
   \<and> currentLine ((keyCtrlB c ^^ n) s) = currentLine s
   \<and> currentCol ((keyCtrlB c ^^ n) s) = currentCol s
   \<and> dispatch h (EventKey KeyCtrlF r) s = Inr (False, keyCtrlF (h - 3) s)
   \<and> dispatch h (EventKey KeyCtrlB r) s = Inr (False, keyCtrlB (h - 3) s)"
  using funpow_keyCtrlF_bounded [where s = s and c = "screenHeight s - 3" and n = n]
    funpow_keyCtrlB_nonneg [where s = s and c = "screenHeight s - 3" and n = n]
    funpow_keyCtrlF_fields [where c = c and n = n and s = s]
    funpow_keyCtrlB_fields [where c = c and n = n and s = s]
  by simp

theorem page_scroll_bounds_witness:
  "0 \<le> startLine hundred \<and> startLine hundred \<le> maxStartOf hundred (screenHeight hundred - 3)
   \<and> maxStartOf hundred (screenHeight hundred - 3) = 93
   \<and> startLine ((keyCtrlF (screenHeight hundred - 3) ^^ 20) hundred) \<le> 93
   \<and> 0 \<le> startLine ((keyCtrlB (screenHeight hundred - 3) ^^ 20) hundred)
   \<and> startLine (keyCtrlF 7 (hundred\<lparr>startLine := 90\<rparr>)) = 93
   \<and> startLine (keyCtrlB 7 (hundred\<lparr>startLine := 5\<rparr>)) = 0"
  using page_scroll_bounds [where s = hundred and n = 20]
  by (simp add: hundred_def maxStartOf_def keyCtrlF_def keyCtrlB_def)

subsection \<open>C9: moves at the first and the last line\<close>

text \<open>
  C9. At the last line \<open>moveCursor(state, 1, 0)\<close> changes nothing, and at the first line
  \<open>moveCursor(state, -1, 0)\<close> changes nothing: the call returns the state it was given.
\<close>

theorem moveCursor_boundary:
  "(currentLine s = int (length (lines s)) - 1 \<longrightarrow> moveCursor s 1 0 = Inr s)
   \<and> (currentLine s = 0 \<longrightarrow> moveCursor s (- 1) 0 = Inr s)"
  by (simp add: moveCursor_def)

theorem moveCursor_boundary_witness:
  "currentLine (initState ''x'' ''f'') = int (length (lines (initState ''x'' ''f''))) - 1
   \<and> moveCursor (initState ''x'' ''f'') 1 0 = Inr (initState ''x'' ''f'')
   \<and> currentLine (initState ''x'' ''f'') = 0
   \<and> moveCursor (initState ''x'' ''f'') (- 1) 0 = Inr (initState ''x'' ''f'')"
  using moveCursor_boundary [where s = "initState ''x'' ''f''"]
  by (simp add: initState_def nl_def)

subsection \<open>C10: the first column shown\<close>

text \<open>
  C10. \<open>startCol\<close> is 0 in the initial state; the head of the loop body and the dispatch
  of any event return a state with the same \<open>startCol\<close>; so it is 0 in every state of
  every run. The renderer returns no state. With \<open>startCol = 0\<close> the cursor, when shown,
  is shown at screen column \<open>currentCol + 1\<close> (column 0 is the border), and a content row
  is drawn from the first byte of its line: the first \<open>w - 2\<close> bytes.
\<close>

theorem startCol_never_written:
  "startCol (initState content fname) = 0
   \<and> (resync w h s = Inr s1 \<longrightarrow> startCol s1 = startCol s)
   \<and> (dispatch h ev s = Inr (brk, s2) \<longrightarrow> startCol s2 = startCol s)
   \<and> list_all startColZero (fst (mainLoop evs (initState content fname)))
   \<and> (startCol s = 0 \<longrightarrow>
        cursorOp s = (if 0 \<le> currentLine s - startLine s
                         \<and> currentLine s - startLine s < screenHeight s - 3
                         \<and> 0 \<le> currentCol s \<and> currentCol s < screenWidth s - 2
                      then ShowCursor (currentCol s + 1) (currentLine s - startLine s + 1)
                      else HideCursor))
   \<and> (startCol s = 0 \<and> 2 \<le> w \<and> line \<noteq> []
        \<and> index_line (lines s) (startLine s + i) = Inr line \<longrightarrow>
        drawContent s w [i] = Inr (drawString 1 (1 + i) (take (nat (w - 2)) line)))"
proof (intro conjI impI)
  show "startCol (initState content fname) = 0" by (simp add: initState_def)
  show "resync w h s = Inr s1 \<Longrightarrow> startCol s1 = startCol s"
    using resync_fields by blast
  show "dispatch h ev s = Inr (brk, s2) \<Longrightarrow> startCol s2 = startCol s"
    using dispatch_fields by blast
  show "list_all startColZero (fst (mainLoop evs (initState content fname)))"
  proof (rule mainLoop_trace_rule [where J = "\<lambda>evs t. startColZero t"])
    show "startColZero (initState content fname)"
      by (simp add: startColZero_def initState_def)
  next
    fix w h ev and rest :: "(int \<times> int \<times> event) list" and s s1
    assume "startColZero s" and "resync w h s = Inr s1"
    then show "startColZero s1"
      using resync_fields by (simp add: startColZero_def)
  next
    fix w h ev and rest :: "(int \<times> int \<times> event) list" and s s1 brk s2
    assume "startColZero s" and "resync w h s = Inr s1"
      and "dispatch h ev s1 = Inr (brk, s2)"
    then have "startColZero s2"
      using resync_fields dispatch_fields by (simp add: startColZero_def)
    then show "startColZero s2 \<and> startColZero s2" by simp
  qed
  show "startCol s = 0 \<Longrightarrow>
        cursorOp s = (if 0 \<le> currentLine s - startLine s
                         \<and> currentLine s - startLine s < screenHeight s - 3
                         \<and> 0 \<le> currentCol s \<and> currentCol s < screenWidth s - 2
                      then ShowCursor (currentCol s + 1) (currentLine s - startLine s + 1)
                      else HideCursor)"
    by (simp add: cursorOp_def Let_def)
  show "startCol s = 0 \<and> 2 \<le> w \<and> line \<noteq> []
        \<and> index_line (lines s) (startLine s + i) = Inr line \<Longrightarrow>
        drawContent s w [i] = Inr (drawString 1 (1 + i) (take (nat (w - 2)) line))"
    using drawContent_row_from_column_zero by blast
qed

theorem startCol_never_written_witness:
  "resync 80 10 (initState ''ab'' ''f'')
     = Inr ((initState ''ab'' ''f'')\<lparr>screenWidth := 80, screenHeight := 10\<rparr>)
   \<and> startCol ((initState ''ab'' ''f'')\<lparr>screenWidth := 80, screenHeight := 10\<rparr>) = 0
   \<and> dispatch 10 (EventKey KeyRight 0)
        ((initState ''ab'' ''f'')\<lparr>screenWidth := 80, screenHeight := 10\<rparr>)
     = Inr (False, (initState ''ab'' ''f'')
              \<lparr>screenWidth := 80, screenHeight := 10, currentCol := 1\<rparr>)
   \<and> startCol ((initState ''ab'' ''f'')
              \<lparr>screenWidth := 80, screenHeight := 10, currentCol := 1\<rparr>) = 0
   \<and> list_all startColZero
        (fst (mainLoop [(80, 10, EventKey KeyRight 0)] (initState ''ab'' ''f'')))
   \<and> cursorOp ((initState ''ab'' ''f'')
              \<lparr>screenWidth := 80, screenHeight := 10, currentCol := 1\<rparr>) = ShowCursor 2 1
   \<and> (2::int) \<le> 80 \<and> ''ab'' \<noteq> []
   \<and> index_line (lines ((initState ''ab'' ''f'')
              \<lparr>screenWidth := 80, screenHeight := 10, currentCol := 1\<rparr>)) (0 + 0) = Inr ''ab''
   \<and> drawContent ((initState ''ab'' ''f'')
              \<lparr>screenWidth := 80, screenHeight := 10, currentCol := 1\<rparr>) 80 [0]
       = Inr (drawString 1 (1 + 0) ''ab'')"
proof -
  let ?s0 = "initState ''ab'' ''f''"
  let ?s1 = "?s0\<lparr>screenWidth := 80, screenHeight := 10\<rparr>"
  let ?s2 = "?s0\<lparr>screenWidth := 80, screenHeight := 10, currentCol := 1\<rparr>"
  have r: "resync 80 10 ?s0 = Inr ?s1"
    by (simp add: initState_def nl_def resync_def index_line_def Let_def)
  have d: "dispatch 10 (EventKey KeyRight 0) ?s1 = Inr (False, ?s2)"
    by (simp add: initState_def nl_def moveCursor_def index_line_def Let_def)
  have i: "index_line (lines ?s2) (startLine ?s2 + 0) = Inr ''ab''"
    by (simp add: initState_def nl_def index_line_def)
  have n: "(2::int) \<le> 80" "''ab'' \<noteq> []" by simp_all
  note t1 = startCol_never_written
    [where content = "''ab''" and fname = "''f''" and w = 80 and h = 10 and s = ?s0 and
      ?s1.0 = ?s1 and evs = "[(80, 10, EventKey KeyRight 0)]"]
  note t2 = startCol_never_written
    [where content = "''ab''" and fname = "''f''" and w = 80 and h = 10 and s = ?s1 and
      ev = "EventKey KeyRight 0" and brk = False and ?s2.0 = ?s2]
  note t3 = startCol_never_written
    [where content = "''ab''" and fname = "''f''" and s = ?s2 and w = 80 and i = 0
      and line = "''ab''"]
  have z0: "startCol ?s0 = 0" using t1 by blast
  have z1: "startCol ?s1 = 0" using t1 r z0 by metis
  have z2: "startCol ?s2 = 0" using t2 d z1 by metis
  have la: "list_all startColZero (fst (mainLoop [(80, 10, EventKey KeyRight 0)] ?s0))"
    using t1 by blast
  have "cursorOp ?s2 = (if 0 \<le> currentLine ?s2 - startLine ?s2
                         \<and> currentLine ?s2 - startLine ?s2 < screenHeight ?s2 - 3
                         \<and> 0 \<le> currentCol ?s2 \<and> currentCol ?s2 < screenWidth ?s2 - 2
                      then ShowCursor (currentCol ?s2 + 1) (currentLine ?s2 - startLine ?s2 + 1)
                      else HideCursor)"
    using t3 z2 by blast
  then have c: "cursorOp ?s2 = ShowCursor 2 1" by (simp add: initState_def)
  have "drawContent ?s2 80 [0] = Inr (drawString 1 (1 + 0) (take (nat (80 - 2)) ''ab''))"
    using t3 z2 n i by blast
  then have dc: "drawContent ?s2 80 [0] = Inr (drawString 1 (1 + 0) ''ab'')"
    by simp
  have i': "index_line (lines ?s2) (0 + 0) = Inr ''ab''"
    using i by (simp add: initState_def)
  show ?thesis
    by (intro conjI; (rule r z1 d z2 la c n i' dc))
qed

end
